theory Spec2Isabelle
  imports Main "HOL-Library.AList" "HOL-Library.Sublist"
begin

section \<open>JavaScript values as the panel stores and receives them\<close>

text \<open>
  The panel keeps JSON-shaped records in a key-value store and reads their fields
  dynamically, so a record is an object whose fields may be absent or of any type.
  Numbers are modelled as integers (memory sizes, ports, HTTP statuses); fractional
  numbers and \<open>NaN\<close> are outside the model. \<open>JNum n\<close> is the number \<open>n\<close> where the language
  has it, that is, where a double holds \<open>n\<close>: every integer of size below \<open>2^53\<close>, and of
  the larger ones those that \<open>to_double\<close> below leaves as they are. An object is an
  association list in insertion order, as \<open>Object.keys\<close> enumerates it.
\<close>

datatype jsval =
    JUndef
  | JNull
  | JBool bool
  | JNum int
  | JStr string
  | JArr "jsval list"
  | JObj "(string \<times> jsval) list"

text \<open>\<open>!v\<close> is \<open>\<not> truthy v\<close>.\<close>

fun truthy :: "jsval \<Rightarrow> bool" where
  "truthy JUndef = False"
| "truthy JNull = False"
| "truthy (JBool b) = b"
| "truthy (JNum n) = (n \<noteq> 0)"
| "truthy (JStr s) = (s \<noteq> [])"
| "truthy (JArr xs) = True"
| "truthy (JObj kvs) = True"

text \<open>
  \<open>a === b\<close>. Two objects or arrays are equal only when they are the same reference; the
  values compared in the panel come from separate reads of the store or from the request,
  so they never are.
\<close>

fun strict_eq :: "jsval \<Rightarrow> jsval \<Rightarrow> bool" where
  "strict_eq JUndef JUndef = True"
| "strict_eq JNull JNull = True"
| "strict_eq (JBool a) (JBool b) = (a = b)"
| "strict_eq (JNum a) (JNum b) = (a = b)"
| "strict_eq (JStr a) (JStr b) = (a = b)"
| "strict_eq _ _ = False"

text \<open>
  \<open>v.k\<close> for a value \<open>v\<close> that is neither \<open>null\<close> nor \<open>undefined\<close>: the field of an
  object, \<open>undefined\<close> when the field is absent or \<open>v\<close> is a primitive or an array (the
  field names the panel uses are not built-in properties).
\<close>

fun field :: "jsval \<Rightarrow> string \<Rightarrow> jsval" where
  "field (JObj kvs) k = (case map_of kvs k of None \<Rightarrow> JUndef | Some v \<Rightarrow> v)"
| "field _ k = JUndef"

text \<open>\<open>v.k\<close> where nothing guards \<open>v\<close>: reading a property of \<open>null\<close> or \<open>undefined\<close>
  throws a TypeError (\<open>None\<close>).\<close>

definition get_prop :: "jsval \<Rightarrow> string \<Rightarrow> jsval option" where
  "get_prop v k = (if v = JUndef \<or> v = JNull then None else Some (field v k))"

text \<open>
  \<open>v.k = x\<close>: an existing field keeps its place, a new one goes last. Assigning to a
  property of a primitive does nothing, and a property set on an array is not part of
  its JSON form.
\<close>

fun set_field :: "jsval \<Rightarrow> string \<Rightarrow> jsval \<Rightarrow> jsval" where
  "set_field (JObj kvs) k x = JObj (AList.update k x kvs)"
| "set_field v k x = v"


text \<open>Decimal digits of a natural number, for indices and for numbers inside strings.\<close>

function show_nat :: "nat \<Rightarrow> string" where
  "show_nat n =
     (if n < 10 then [''0123456789'' ! n]
      else show_nat (n div 10) @ [''0123456789'' ! (n mod 10)])"
  by pat_completeness auto
termination
  by (relation "measure id") auto

text \<open>
  \<open>{...a, ...b}\<close>: the own enumerable fields of \<open>b\<close>, in order, written into a copy of
  those of \<open>a\<close>. An object spreads its fields, an array its elements under their indices,
  a string its characters under their indices; other primitives spread nothing.
\<close>

fun own_fields :: "jsval \<Rightarrow> (string \<times> jsval) list" where
  "own_fields (JObj kvs) = kvs"
| "own_fields (JArr xs) = zip (map show_nat [0..<length xs]) xs"
| "own_fields (JStr s) = zip (map show_nat [0..<length s]) (map (\<lambda>c. JStr [c]) s)"
| "own_fields v = []"

definition spread :: "jsval \<Rightarrow> jsval \<Rightarrow> jsval" where
  "spread a b = JObj (foldl (\<lambda>acc kv. AList.update (fst kv) (snd kv) acc) (own_fields a) (own_fields b))"

text \<open>\<open>{...v, k: x}\<close>.\<close>

definition with_field :: "jsval \<Rightarrow> string \<Rightarrow> jsval \<Rightarrow> jsval" where
  "with_field v k x = JObj (AList.update k x (own_fields v))"

fun is_boolean :: "jsval \<Rightarrow> bool" where
  "is_boolean (JBool b) = True"
| "is_boolean _ = False"

fun is_string :: "jsval \<Rightarrow> bool" where
  "is_string (JStr s) = True"
| "is_string _ = False"

subsection \<open>Template literals\<close>

fun js_join :: "string list \<Rightarrow> string" where
  "js_join [] = []"
| "js_join [x] = x"
| "js_join (x # y # ys) = x @ '','' @ js_join (y # ys)"

text \<open>
  The nearest double to a natural number, a tie going to the even significand. A double
  has a significand of 53 bits, so the numbers below \<open>2^53\<close> are doubles, and a larger one
  is rounded at the bit \<open>b\<close> that leaves 53 bits above it. (Numbers beyond the largest
  double, about \<open>1.8e308\<close>, would be \<open>Infinity\<close>; they are outside the model.)
\<close>

function bit_length :: "nat \<Rightarrow> nat" where
  "bit_length n = (if n = 0 then 0 else Suc (bit_length (n div 2)))"
  by pat_completeness auto
termination
  by (relation "measure id") auto

definition to_double :: "nat \<Rightarrow> nat" where
  "to_double m =
     (if m < 2 ^ 53 then m
      else (let b = bit_length m - 53; q = m div 2 ^ b; r = m mod 2 ^ b
            in if 2 * r > 2 ^ b \<or> (2 * r = 2 ^ b \<and> odd q) then (q + 1) * 2 ^ b else q * 2 ^ b))"

text \<open>
  \<open>Number::toString\<close> writes a number \<open>x\<close> with the fewest significant digits \<open>s\<close> such
  that \<open>s * 10^e\<close> is still read back as \<open>x\<close>. \<open>shortest_at x k\<close> looks for such an \<open>s\<close> of \<open>k\<close>
  digits: with \<open>e\<close> the number of digits of \<open>x\<close> less \<open>k\<close>, the candidates are the multiples
  of \<open>10^e\<close> just below and just above \<open>x\<close>; when both are read back as \<open>x\<close> the closer one
  is taken, and the even one when they are equally close. \<open>shortest_from x k\<close> tries
  \<open>k\<close>, \<open>k + 1\<close>, ... and ends with all the digits of \<open>x\<close>.
\<close>

definition shortest_at :: "nat \<Rightarrow> nat \<Rightarrow> (nat \<times> nat) option" where
  "shortest_at x k =
     (let e = length (show_nat x) - k; lo = x div 10 ^ e; hi = lo + 1;
          lo_ok = (to_double (lo * 10 ^ e) = x); hi_ok = (to_double (hi * 10 ^ e) = x)
      in if lo_ok \<and> hi_ok
           then (if x - lo * 10 ^ e < hi * 10 ^ e - x \<or> (x - lo * 10 ^ e = hi * 10 ^ e - x \<and> even lo)
                 then Some (lo, e) else Some (hi, e))
         else if lo_ok then Some (lo, e)
         else if hi_ok then Some (hi, e)
         else None)"

function shortest_from :: "nat \<Rightarrow> nat \<Rightarrow> nat \<times> nat" where
  "shortest_from x k =
     (if length (show_nat x) \<le> k then (x, 0)
      else case shortest_at x k of Some p \<Rightarrow> p | None \<Rightarrow> shortest_from x (Suc k))"
  by pat_completeness auto
termination
  by (relation "measure (\<lambda>(x, k). length (show_nat x) - k)") (auto simp del: show_nat.simps)

text \<open>
  \<open>Number::toString\<close> for a natural number: all the digits below \<open>2^53\<close>; above, the
  significant digits \<open>s\<close> without their final zeros, followed by zeros while the number
  has at most 21 digits (\<open>2^64\<close> is written \<open>18446744073709552000\<close>), and in exponent form
  from \<open>1e+21\<close> on (\<open>2^70\<close> is written \<open>1.1805916207174113e+21\<close>).
\<close>

definition number_to_string :: "nat \<Rightarrow> string" where
  "number_to_string x =
     (if x < 2 ^ 53 then show_nat x
      else (let (s, e) = shortest_from x 1;
                ds = rev (dropWhile (\<lambda>c. c = CHR ''0'') (rev (show_nat s)));
                n = length (show_nat s) + e
            in if n \<le> 21 then ds @ replicate (n - length ds) (CHR ''0'')
               else (if length ds = 1 then ds else hd ds # ''.'' @ tl ds) @ ''e+'' @ show_nat (n - 1)))"

text \<open>\<open>`${v}`\<close> and \<open>v + "..."\<close>: the string a value is turned into.\<close>

fun to_str :: "jsval \<Rightarrow> string" where
  "to_str JUndef = ''undefined''"
| "to_str JNull = ''null''"
| "to_str (JBool b) = (if b then ''true'' else ''false'')"
| "to_str (JNum n) =
     (if n < 0 then ''-'' @ number_to_string (nat (- n)) else number_to_string (nat n))"
| "to_str (JStr s) = s"
| "to_str (JArr xs) =
     js_join (map (\<lambda>x. if x = JUndef \<or> x = JNull then [] else to_str x) xs)"
| "to_str (JObj kvs) = ''[object Object]''"

subsection \<open>Array methods\<close>

text \<open>
  A callback that reads a property of its argument throws on a \<open>null\<close> element, and the
  method with it: \<open>None\<close> is the thrown TypeError. Calling an array method on a value that
  is not an array throws as well.
\<close>

fun as_array :: "jsval \<Rightarrow> jsval list option" where
  "as_array (JArr xs) = Some xs"
| "as_array _ = None"

fun js_find :: "(jsval \<Rightarrow> bool option) \<Rightarrow> jsval list \<Rightarrow> jsval option" where
  "js_find p [] = Some JUndef"
| "js_find p (x # xs) =
     (case p x of None \<Rightarrow> None
      | Some b \<Rightarrow> if b then Some x else js_find p xs)"

fun js_some :: "(jsval \<Rightarrow> bool option) \<Rightarrow> jsval list \<Rightarrow> bool option" where
  "js_some p [] = Some False"
| "js_some p (x # xs) =
     (case p x of None \<Rightarrow> None
      | Some b \<Rightarrow> if b then Some True else js_some p xs)"

fun js_filter :: "(jsval \<Rightarrow> bool option) \<Rightarrow> jsval list \<Rightarrow> jsval list option" where
  "js_filter p [] = Some []"
| "js_filter p (x # xs) =
     (case p x of None \<Rightarrow> None
      | Some b \<Rightarrow>
          (case js_filter p xs of None \<Rightarrow> None
           | Some ys \<Rightarrow> Some (if b then x # ys else ys)))"

text \<open>\<open>findIndex\<close>: \<open>Some None\<close> is the result \<open>-1\<close>.\<close>

fun js_findIndex :: "(jsval \<Rightarrow> bool option) \<Rightarrow> jsval list \<Rightarrow> nat option option" where
  "js_findIndex p [] = Some None"
| "js_findIndex p (x # xs) =
     (case p x of None \<Rightarrow> None
      | Some b \<Rightarrow>
          if b then Some (Some 0)
          else (case js_findIndex p xs of None \<Rightarrow> None
                | Some None \<Rightarrow> Some None
                | Some (Some i) \<Rightarrow> Some (Some (Suc i))))"


text \<open>\<open>v.includes(c)\<close>: on an array, membership; on a string, a substring test on the
  argument's string; on anything else the method does not exist.\<close>

fun js_includes :: "jsval \<Rightarrow> jsval \<Rightarrow> bool option" where
  "js_includes (JArr xs) c = Some (list_ex (\<lambda>x. strict_eq x c) xs)"
| "js_includes (JStr s) c = Some (sublist (to_str c) s)"
| "js_includes _ c = None"

section \<open>The key-value store\<close>

text \<open>
  Modelled from the spec: the storage collaborator \<open>handlers/db.js\<close> is not part of the
  sources. The spec gives it as \<open>get(key) -> value|null\<close>, \<open>set(key, value)\<close>,
  \<open>delete(key)\<close>, atomic per key, and a batch that commits several writes together.
\<close>

type_synonym store = "string \<Rightarrow> jsval option"

definition db_get :: "store \<Rightarrow> string \<Rightarrow> jsval" where
  "db_get db k = (case db k of None \<Rightarrow> JNull | Some v \<Rightarrow> v)"

definition db_set :: "store \<Rightarrow> string \<Rightarrow> jsval \<Rightarrow> store" where
  "db_set db k v = db(k \<mapsto> v)"

definition db_delete :: "store \<Rightarrow> string \<Rightarrow> store" where
  "db_delete db k = db(k := None)"

text \<open>\<open>(await db.get(k)) || []\<close>.\<close>

definition or_empty :: "jsval \<Rightarrow> jsval" where
  "or_empty v = (if truthy v then v else JArr [])"

section \<open>Authorization (utils/authHelper)\<close>

text \<open>
  \<open>isUserAuthorizedForContainer\<close>. The \<open>|| []\<close> after \<open>db.get\<close> applies to the promise, not
  to its value, so a missing key leaves \<open>null\<close>; every exception is caught and gives
  \<open>false\<close>.
\<close>

text \<open>\<open>users.find((user) => user.userId === userId)\<close>.\<close>

definition find_user :: "jsval \<Rightarrow> jsval \<Rightarrow> jsval option" where
  "find_user users userId =
     Option.bind (as_array users)
       (js_find (\<lambda>user. map_option (\<lambda>u. strict_eq u userId) (get_prop user ''userId'')))"

definition isUserAuthorizedForContainer :: "store \<Rightarrow> jsval \<Rightarrow> jsval \<Rightarrow> bool" where
  "isUserAuthorizedForContainer db userId containerId =
     (if \<not> truthy userId \<or> \<not> truthy containerId then False
      else
        (let userInstances = db_get db (to_str userId @ ''_instances'');
             users = db_get db ''users''
         in case find_user users userId
            of None \<Rightarrow> False
             | Some user \<Rightarrow>
                 if \<not> truthy user then False
                 else if truthy (field user ''admin'') then True
                 else
                   (let subUserInstances = or_empty (field user ''accessTo'')
                    in case js_includes subUserInstances containerId of
                         None \<Rightarrow> False
                       | Some isInSubUserInstances \<Rightarrow>
                           (case Option.bind (as_array userInstances)
                                   (js_some (\<lambda>instance.
                                      map_option (\<lambda>i. strict_eq i containerId) (get_prop instance ''Id'')))
                            of None \<Rightarrow> False
                             | Some isInUserInstances \<Rightarrow>
                                 isInSubUserInstances \<or> isInUserInstances))))"

section \<open>Responses\<close>

text \<open>
  What a handler answers: a redirect, a redirect after a flash message was left in the
  session (\<open>req.session.error\<close> or \<open>req.session.success\<close>), a rendered view, a JSON body or
  a text body, with the HTTP status where the handler sets one.
\<close>

datatype response =
    Redirect string
  | RedirectSession string string string
  | Render nat string
  | Json nat jsval
  | Send nat string

section \<open>Viewing an instance (routes/Instance/Instance.js)\<close>

definition id_char :: "char \<Rightarrow> bool" where
  "id_char c = (c \<in> set ''abcdefghijklmnopqrstuvwxyzABCDEFGHIJKLMNOPQRSTUVWXYZ0123456789-_'')"

text \<open>\<open>validateInstanceId\<close>; the id is a route parameter, hence a string.\<close>

definition validateInstanceId :: "string \<Rightarrow> bool" where
  "validateInstanceId ident = (length ident > 0 \<and> list_all id_char ident)"

text \<open>
  \<open>GET /instance/:id\<close>, from the handler body on (the \<open>isAuthenticated\<close> middleware is
  not part of the sources). The result is the response and the store the handler leaves.
  Rendering, the plugin list and the file listing do not touch the store.
\<close>

definition view_instance :: "store \<Rightarrow> jsval \<Rightarrow> string \<Rightarrow> response \<times> store" where
  "view_instance db user ident =
     (if \<not> truthy user then (Redirect ''/'', db)
      else if \<not> validateInstanceId ident then (Redirect ''/'', db)
      else
        (let instance = db_get db (ident @ ''_instance'') in
         if \<not> truthy instance then (Redirect ''../instances'', db)
         else if \<not> isUserAuthorizedForContainer db (field user ''userId'') (field instance ''Id'')
           then (Render 403 ''error'', db)
         else
           (let instance1 = set_field instance ''suspended''
                  (if is_boolean (field instance ''suspended'')
                   then field instance ''suspended'' else JBool False);
                instance2 = set_field instance1 ''State''
                  (if truthy (field instance1 ''State'')
                   then field instance1 ''State'' else JStr ''UNKNOWN'');
                db1 = db_set db (ident @ ''_instance'') instance2
            in if strict_eq (field instance2 ''State'') (JStr ''INSTALLING'')
                 then (Redirect (''../../instance/'' @ ident @ ''/installing''), db1)
               else if strict_eq (field instance2 ''suspended'') (JBool True)
                 then (Redirect ''../../instances?err=SUSPENDED'', db1)
               else (Render 200 ''instance/instance'', db1))))"

section \<open>The node daemon\<close>

text \<open>
  A request as \<open>axios\<close> is given it: method, URL, the basic-auth password (the user name
  is always \<open>Skyport\<close>) and the timeout in milliseconds when one is set. The headers and
  the JSON body are left out: the properties below are about which requests are sent,
  not about what they ask the daemon to do.
\<close>

record request =
  req_method :: string
  req_url :: string
  req_password :: jsval
  req_timeout :: "nat option"

text \<open>
  What comes back from the daemon: a response with its status and body, or no response
  at all, with the error code of the failure (\<open>ECONNABORTED\<close> for a timeout,
  \<open>ECONNREFUSED\<close>, ...) and its message.
\<close>

datatype reply = Responded nat jsval | NoResponse string string

text \<open>
  What a handler can find in \<open>catch\<close>: a TypeError raised by the engine, the error
  \<open>axios\<close> rejects with (carrying \<open>error.response\<close>, or only \<open>error.request\<close> and
  \<open>error.code\<close>), or an \<open>Error\<close> made with \<open>new Error(message)\<close>.
\<close>

datatype js_error =
    TypeError
  | AxiosResponse nat jsval
  | AxiosNoResponse string string
  | Error string

text \<open>\<open>axios\<close> resolves with the response when \<open>validateStatus\<close> accepts its status and
  rejects otherwise; without the option, the statuses 200 to 299 are accepted.\<close>

definition axios :: "(nat \<Rightarrow> bool) \<Rightarrow> reply \<Rightarrow> js_error + (nat \<times> jsval)" where
  "axios validateStatus r =
     (case r of
        Responded status body \<Rightarrow>
          if validateStatus status then Inr (status, body) else Inl (AxiosResponse status body)
      | NoResponse code message \<Rightarrow> Inl (AxiosNoResponse code message))"

definition default_validateStatus :: "nat \<Rightarrow> bool" where
  "default_validateStatus status = (200 \<le> status \<and> status < 300)"

definition node_url :: "jsval \<Rightarrow> string" where
  "node_url node = ''http://'' @ to_str (field node ''address'') @ '':'' @ to_str (field node ''port'')"

section \<open>Suspending and unsuspending\<close>

subsection \<open>The API routes (routes/api.js)\<close>

text \<open>
  \<open>errorResponse(res, status, message)\<close>.
\<close>

definition errorResponse :: "nat \<Rightarrow> string \<Rightarrow> response" where
  "errorResponse status message = Json status (JObj [(''error'', JStr message)])"

text \<open>
  \<open>instances.find(p)\<close> hands back the element itself, so assigning to its fields changes
  the array that is written back: the first element \<open>p\<close> accepts is replaced by \<open>f\<close> of it.
\<close>

definition update_found :: "(jsval \<Rightarrow> bool option) \<Rightarrow> (jsval \<Rightarrow> jsval) \<Rightarrow> jsval list \<Rightarrow> jsval list option" where
  "update_found p f xs =
     (case js_findIndex p xs of
        None \<Rightarrow> None
      | Some None \<Rightarrow> Some xs
      | Some (Some i) \<Rightarrow> Some (if truthy (xs ! i) then xs[i := f (xs ! i)] else xs))"


text \<open>
  \<open>POST /api/instances/unsuspend\<close>. \<open>user\<close> is \<open>req.user\<close>, which \<open>validateApiKey\<close> does not
  set (it sets \<open>req.apiKey\<close>): it is \<open>undefined\<close> unless the request also carries a login
  session. The handler reads \<open>req.user.userId\<close> for the audit log after both writes.
\<close>

definition api_unsuspend :: "(nat \<Rightarrow> string) \<Rightarrow> store \<Rightarrow> jsval \<Rightarrow> jsval \<Rightarrow> response \<times> store" where
  "api_unsuspend clock db user ident =
     (if \<not> truthy ident then (errorResponse 400 ''Instance ID is required'', db)
      else
        (let instance = db_get db (to_str ident @ ''_instance'') in
         if \<not> truthy instance then (errorResponse 404 ''Instance not found'', db)
         else
           (let instance1 = set_field instance ''suspended'' (JBool False);
                instance2 = set_field instance1 ''unsuspendedAt'' (JStr (clock 0));
                db1 = db_set db (to_str ident @ ''_instance'') instance2
            in case Option.bind (as_array (or_empty (db_get db1 ''instances'')))
                      (update_found
                         (\<lambda>obj. map_option (\<lambda>c. strict_eq c (field instance2 ''ContainerId''))
                                  (get_prop obj ''ContainerId''))
                         (\<lambda>obj. set_field (set_field obj ''suspended'' (JBool False))
                                  ''unsuspendedAt'' (JStr (clock 1))))
               of None \<Rightarrow> (errorResponse 500 ''Failed to unsuspend instance'', db1)
                | Some instances \<Rightarrow>
                    (let db2 = db_set db1 ''instances'' (JArr instances) in
                     case get_prop user ''userId'' of
                       None \<Rightarrow> (errorResponse 500 ''Failed to unsuspend instance'', db2)
                     | Some uid \<Rightarrow>
                         (Json 200 (JObj [(''success'', JBool True),
                            (''message'', JStr (''Instance '' @ to_str ident @ '' has been unsuspended''))]),
                          db2)))))"

subsection \<open>The admin routes\<close>




section \<open>Deleting an instance\<close>

text \<open>
  A helper that can throw after it has written: the error it threw, if any, the store
  it leaves and the requests it sent to the daemon.
\<close>

type_synonym effect = "js_error option \<times> store \<times> request list"

text \<open>\<open>list.filter(obj => obj[k] !== v)\<close> on \<open>(await db.get(key)) || []\<close>.\<close>

definition without :: "string \<Rightarrow> jsval \<Rightarrow> jsval \<Rightarrow> jsval list option" where
  "without k v list =
     Option.bind (as_array (or_empty list))
       (js_filter (\<lambda>obj. map_option (\<lambda>x. \<not> strict_eq x v) (get_prop obj k)))"

subsection \<open>The API route (routes/api.js)\<close>

text \<open>
  \<open>deleteInstance\<close> of \<open>routes/api.js\<close>. The call to the daemon and the cleanup share one
  \<open>try\<close> block whose \<open>catch\<close> logs and rethrows. \<open>daemon\<close> is what the daemon answers to
  the one request.
\<close>

definition api_deleteInstance :: "reply \<Rightarrow> store \<Rightarrow> jsval \<Rightarrow> effect" where
  "api_deleteInstance daemon db instance =
     (case get_prop (field instance ''Node'') ''address'' of
        None \<Rightarrow> (Some TypeError, db, [])
      | Some address \<Rightarrow>
          (let rq = \<lparr> req_method = ''delete'',
                      req_url = node_url (field instance ''Node'') @ ''/instances/''
                                  @ to_str (field instance ''ContainerId''),
                      req_password = field (field instance ''Node'') ''apiKey'',
                      req_timeout = None \<rparr>
           in case axios default_validateStatus daemon of
                Inl e \<Rightarrow> (Some e, db, [rq])
              | Inr response \<Rightarrow>
                  (case without ''ContainerId'' (field instance ''ContainerId'')
                          (db_get db (to_str (field instance ''User'') @ ''_instances''))
                   of None \<Rightarrow> (Some TypeError, db, [rq])
                    | Some userInstances \<Rightarrow>
                        (let db1 = db_set db (to_str (field instance ''User'') @ ''_instances'')
                                     (JArr userInstances)
                         in case without ''ContainerId'' (field instance ''ContainerId'')
                                   (db_get db1 ''instances'')
                            of None \<Rightarrow> (Some TypeError, db1, [rq])
                             | Some globalInstances \<Rightarrow>
                                 (let db2 = db_set db1 ''instances'' (JArr globalInstances);
                                      db3 = db_delete db2 (to_str (field instance ''Id'') @ ''_instance'')
                                  in (None, db3, [rq]))))))"

text \<open>\<open>DELETE /api/instance/delete\<close>, after \<open>validateApiKey\<close>; \<open>ident\<close> is \<open>req.body.id\<close>.\<close>

definition api_delete :: "reply \<Rightarrow> store \<Rightarrow> jsval \<Rightarrow> response \<times> store \<times> request list" where
  "api_delete daemon db ident =
     (if \<not> truthy ident then (errorResponse 400 ''Instance ID is required'', db, [])
      else
        (let instance = db_get db (to_str ident @ ''_instance'') in
         if \<not> truthy instance then (errorResponse 404 ''Instance not found'', db, [])
         else
           (case api_deleteInstance daemon db instance of
              (Some e, db1, sent) \<Rightarrow> (errorResponse 500 ''Failed to delete instance'', db1, sent)
            | (None, db1, sent) \<Rightarrow>
                (Json 200 (JObj [(''message'', JStr ''Instance successfully deleted'')]), db1, sent))))"

subsection \<open>The admin route\<close>

text \<open>\<open>validateInstance\<close>: the error it throws, if any. \<open>typeof\<close> of an array is
  \<open>"object"\<close> too.\<close>

fun is_object :: "jsval \<Rightarrow> bool" where
  "is_object (JObj kvs) = True"
| "is_object (JArr xs) = True"
| "is_object _ = False"

definition validateInstance :: "jsval \<Rightarrow> js_error option" where
  "validateInstance instance =
     (if \<not> truthy instance \<or> \<not> is_object instance
        then Some (Error ''Invalid instance: must be an object'')
      else
        (case filter (\<lambda>f. \<not> truthy (field instance f)) [''Id'', ''ContainerId'', ''User'', ''Node''] of
           f # fs \<Rightarrow> Some (Error (''Invalid instance: missing required field '' @ f))
         | [] \<Rightarrow>
             if \<not> truthy (field (field instance ''Node'') ''id'')
                \<or> \<not> truthy (field (field instance ''Node'') ''address'')
                \<or> \<not> truthy (field (field instance ''Node'') ''port'')
                \<or> \<not> truthy (field (field instance ''Node'') ''apiKey'')
               then Some (Error ''Invalid instance: Node information incomplete'')
             else None))"

text \<open>
  The admin \<open>deleteInstance\<close>. The call to the daemon has a \<open>try\<close> block of its own whose
  \<open>catch\<close> only logs, and \<open>validateStatus\<close> accepts every status. Both lists are filtered
  before anything is written; the writes, the two deletes and the removal of the
  workflow from the workflow file are then started together, so the store is written
  whether or not the file operation fails (\<open>file_error\<close> is the error it throws, if any).
\<close>

definition admin_deleteInstance :: "reply \<Rightarrow> js_error option \<Rightarrow> store \<Rightarrow> jsval \<Rightarrow> effect" where
  "admin_deleteInstance daemon file_error db instance =
     (case validateInstance instance of
        Some e \<Rightarrow> (Some e, db, [])
      | None \<Rightarrow>
          (let rq = \<lparr> req_method = ''delete'',
                      req_url = node_url (field instance ''Node'') @ ''/instances/''
                                  @ to_str (field instance ''ContainerId''),
                      req_password = field (field instance ''Node'') ''apiKey'',
                      req_timeout = Some 5000 \<rparr>;
               userKey = to_str (field instance ''User'') @ ''_instances''
           in case without ''Id'' (field instance ''Id'') (db_get db userKey) of
                None \<Rightarrow> (Some TypeError, db, [rq])
              | Some updatedUserInstances \<Rightarrow>
                  (case without ''Id'' (field instance ''Id'') (db_get db ''instances'') of
                     None \<Rightarrow> (Some TypeError, db, [rq])
                   | Some updatedGlobalInstances \<Rightarrow>
                       (let db1 = db_set db userKey (JArr updatedUserInstances);
                            db2 = db_set db1 ''instances'' (JArr updatedGlobalInstances);
                            db3 = db_delete db2 (to_str (field instance ''Id'') @ ''_instance'');
                            db4 = db_delete db3 (to_str (field instance ''Id'') @ ''_workflow'')
                        in (file_error, db4, [rq])))))"

text \<open>\<open>GET /admin/instance/delete/:id\<close>, from the handler body on.\<close>

definition admin_delete ::
    "reply \<Rightarrow> js_error option \<Rightarrow> store \<Rightarrow> jsval \<Rightarrow> string \<Rightarrow> response \<times> store \<times> request list" where
  "admin_delete daemon file_error db user ident =
     (if ident = [] then (RedirectSession ''/admin/instances'' ''error'' ''Instance ID is required'', db, [])
      else
        (let instance = db_get db (ident @ ''_instance'') in
         if \<not> truthy instance
           then (RedirectSession ''/admin/instances'' ''error'' ''Instance not found'', db, [])
         else
           (case admin_deleteInstance daemon file_error db instance of
              (Some e, db1, sent) \<Rightarrow>
                (RedirectSession ''/admin/instances'' ''error'' ''Failed to delete instance'', db1, sent)
            | (None, db1, sent) \<Rightarrow>
                (case get_prop user ''userId'' of
                   None \<Rightarrow> (RedirectSession ''/admin/instances'' ''error'' ''Failed to delete instance'', db1, sent)
                 | Some uid \<Rightarrow>
                     (RedirectSession ''/admin/instances'' ''success'' ''Instance deleted successfully'', db1, sent)))))"

section \<open>Editing an instance (routes/Instance/Edit.js)\<close>

text \<open>
  The request body gives \<open>Image\<close> (here \<open>newImage\<close>) as any JSON value and \<open>Memory\<close> and
  \<open>Cpu\<close> (here \<open>newMemory\<close> and \<open>newCpu\<close>), when present, as integers (\<open>None\<close> is \<open>undefined\<close>); numeric strings and fractions are outside the
  model, so \<open>isNaN\<close> is false and \<open>parseFloat\<close> is the number itself.
\<close>

definition MAX_MEMORY :: int where
  "MAX_MEMORY = 1024 * 1024"

definition MAX_CPU :: int where
  "MAX_CPU = 1024"

definition NODE_API_TIMEOUT :: nat where
  "NODE_API_TIMEOUT = 15000"

definition isAdmin :: "jsval \<Rightarrow> bool" where
  "isAdmin user = (truthy user \<and> strict_eq (field user ''admin'') (JBool True))"

text \<open>\<open>x !== undefined ? x : old\<close> for a number of the body.\<close>

definition num_or :: "int option \<Rightarrow> jsval \<Rightarrow> jsval" where
  "num_or x old = (case x of None \<Rightarrow> old | Some n \<Rightarrow> JNum n)"

definition val_or :: "jsval \<Rightarrow> jsval \<Rightarrow> jsval" where
  "val_or x old = (if x \<noteq> JUndef then x else old)"

definition prepareEditRequestData :: "jsval \<Rightarrow> jsval \<Rightarrow> int option \<Rightarrow> int option \<Rightarrow> request" where
  "prepareEditRequestData instance newImage newMemory newCpu =
     \<lparr> req_method = ''put'',
       req_url = node_url (field instance ''Node'') @ ''/instances/edit/''
                   @ to_str (field instance ''ContainerId''),
       req_password = field (field instance ''Node'') ''apiKey'',
       req_timeout = Some NODE_API_TIMEOUT \<rparr>"

text \<open>
  The condition under which the \<open>.catch\<close> on the first call sends the request again:
  \<open>error.code === 'ECONNABORTED' || (error.response && error.response.status >= 500)\<close>.
\<close>

fun retried :: "js_error \<Rightarrow> bool" where
  "retried (AxiosNoResponse code message) = (code = ''ECONNABORTED'')"
| "retried (AxiosResponse status body) = (status \<ge> 500)"
| "retried _ = False"

text \<open>
  The call with its retry. \<open>daemon k\<close> is the daemon's answer to the \<open>k\<close>-th request; the
  requests sent are returned with the outcome. \<open>validateStatus\<close> accepts every status
  below 500.
\<close>

definition edit_call :: "(nat \<Rightarrow> reply) \<Rightarrow> request \<Rightarrow> (js_error + nat \<times> jsval) \<times> request list" where
  "edit_call daemon rq =
     (case axios (\<lambda>status. status < 500) (daemon 0) of
        Inr response \<Rightarrow> (Inr response, [rq])
      | Inl e \<Rightarrow>
          if retried e then (axios (\<lambda>status. status < 500) (daemon 1), [rq, rq])
          else (Inl e, [rq]))"

text \<open>A batch: the writes and deletes queued, committed in order by \<open>write()\<close>.\<close>

datatype batch_op = BSet string jsval | BDel string

fun apply_op :: "store \<Rightarrow> batch_op \<Rightarrow> store" where
  "apply_op db (BSet k v) = db_set db k v"
| "apply_op db (BDel k) = db_delete db k"

definition batch_write :: "store \<Rightarrow> batch_op list \<Rightarrow> store" where
  "batch_write db ops = foldl apply_op db ops"

text \<open>
  The part of \<open>updateInstanceInDatabase\<close> that one list goes through: the entry whose
  \<open>ContainerId\<close> is the old id is replaced by itself overwritten with the updated record,
  and the list is queued for writing; without such an entry nothing is queued.
\<close>

definition merge_into_list :: "string \<Rightarrow> string \<Rightarrow> jsval \<Rightarrow> jsval \<Rightarrow> batch_op list option" where
  "merge_into_list key ident updatedInstance list =
     (case as_array (or_empty list) of
        None \<Rightarrow> None
      | Some insts \<Rightarrow>
          (case js_findIndex (\<lambda>inst. map_option (\<lambda>c. strict_eq c (JStr ident))
                                        (get_prop inst ''ContainerId'')) insts of
             None \<Rightarrow> None
           | Some None \<Rightarrow> Some []
           | Some (Some i) \<Rightarrow>
               Some [BSet key (JArr (insts[i := spread (insts ! i) updatedInstance]))]))"

definition updated_record :: "string \<Rightarrow> jsval \<Rightarrow> jsval \<Rightarrow> int option \<Rightarrow> int option \<Rightarrow> jsval \<Rightarrow> jsval" where
  "updated_record now instance newImage newMemory newCpu newContainerId =
     with_field
       (with_field
          (with_field
             (with_field
                (with_field instance ''Image'' (val_or newImage (field instance ''Image'')))
                ''Memory'' (num_or newMemory (field instance ''Memory'')))
             ''Cpu'' (num_or newCpu (field instance ''Cpu'')))
          ''ContainerId'' newContainerId)
       ''updatedAt'' (JStr now)"

text \<open>
  \<open>updateInstanceInDatabase\<close>: \<open>None\<close> when it throws, which can only happen before the
  batch is written; otherwise the store after \<open>batch.write()\<close>.
\<close>

definition updateInstanceInDatabase ::
    "string \<Rightarrow> store \<Rightarrow> string \<Rightarrow> jsval \<Rightarrow> jsval \<Rightarrow> int option \<Rightarrow> int option \<Rightarrow> jsval \<Rightarrow> store option" where
  "updateInstanceInDatabase now db ident instance newImage newMemory newCpu newContainerId =
     (let updatedInstance = updated_record now instance newImage newMemory newCpu newContainerId;
          batch = [BSet (to_str newContainerId @ ''_instance'') updatedInstance,
                   BDel (ident @ ''_instance'')];
          userKey = to_str (field instance ''User'') @ ''_instances''
      in case merge_into_list userKey ident updatedInstance (db_get db userKey) of
           None \<Rightarrow> None
         | Some userOps \<Rightarrow>
             (case merge_into_list ''instances'' ident updatedInstance (db_get db ''instances'') of
                None \<Rightarrow> None
              | Some globalOps \<Rightarrow> Some (batch_write db (batch @ userOps @ globalOps))))"

text \<open>
  The \<open>catch\<close> block of the handler: the status of \<open>error.response\<close> when there is one,
  otherwise 500, and the message of the response body or of the error (\<open>error_text\<close> is
  \<open>error.message\<close>; the engine's wording of a TypeError is not modelled).
\<close>

fun error_text :: "js_error \<Rightarrow> string" where
  "error_text (AxiosResponse status body) = ''Request failed with status code '' @ show_nat status"
| "error_text (AxiosNoResponse code message) = message"
| "error_text (Error message) = message"
| "error_text TypeError = ''TypeError''"

definition error_message :: "js_error \<Rightarrow> jsval" where
  "error_message e =
     (let fromBody = (case e of AxiosResponse status body \<Rightarrow> field body ''message'' | _ \<Rightarrow> JUndef)
      in if truthy fromBody then fromBody
         else if error_text e \<noteq> [] then JStr (error_text e)
         else JStr ''Failed to update instance'')"

fun error_status :: "js_error \<Rightarrow> nat" where
  "error_status (AxiosResponse status body) = (if status = 0 then 500 else status)"
| "error_status _ = 500"

definition edit_failed :: "js_error \<Rightarrow> response" where
  "edit_failed e = Json (error_status e) (JObj [(''message'', error_message e)])"

definition changes :: "jsval \<Rightarrow> int option \<Rightarrow> int option \<Rightarrow> jsval" where
  "changes newImage newMemory newCpu =
     JObj [(''Image'', JStr (if truthy newImage then ''updated'' else ''unchanged'')),
           (''Memory'', JStr (if truthy (num_or newMemory JUndef) then ''updated'' else ''unchanged'')),
           (''Cpu'', JStr (if truthy (num_or newCpu JUndef) then ''updated'' else ''unchanged''))]"

text \<open>
  \<open>PUT /instances/edit/:id\<close> with its \<open>isAdmin\<close> middleware, in three parts. First the
  checks on the caller and on the request, made before the store is read: the response
  of the first one that fails, \<open>None\<close> when all pass. \<open>user\<close> is \<open>req.user\<close>, \<open>ident\<close> the route
  parameter.
\<close>

definition edit_rejects :: "jsval \<Rightarrow> string \<Rightarrow> jsval \<Rightarrow> int option \<Rightarrow> int option \<Rightarrow> response option" where
  "edit_rejects user ident newImage newMemory newCpu =
     (if \<not> isAdmin user
        then Some (Json 403 (JObj [(''message'', JStr ''Forbidden: Admin access required'')]))
      else if \<not> truthy user
        then Some (Json 401 (JObj [(''message'', JStr ''Authentication required'')]))
      else if ident = [] \<or> length ident > 64
        then Some (Json 400 (JObj [(''message'', JStr ''Invalid instance ID'')]))
      else if \<not> truthy newImage \<and> \<not> truthy (num_or newMemory JUndef) \<and> \<not> truthy (num_or newCpu JUndef)
        then Some (Json 400 (JObj [(''message'',
                JStr ''At least one update parameter (Image, Memory, Cpu) is required'')]))
      else if (case newMemory of None \<Rightarrow> False | Some m \<Rightarrow> m \<le> 0 \<or> m > MAX_MEMORY)
        then Some (Json 400 (JObj [(''message'', JStr ''Memory must be between 0 and 1048576 MB'')]))
      else if (case newCpu of None \<Rightarrow> False | Some c \<Rightarrow> c \<le> 0 \<or> c > MAX_CPU)
        then Some (Json 400 (JObj [(''message'', JStr ''CPU must be between 0 and 1024'')]))
      else if truthy newImage \<and> (\<not> is_string newImage \<or> length (to_str newImage) > 512)
        then Some (Json 400 (JObj [(''message'', JStr ''Invalid image format or length'')]))
      else None)"

text \<open>
  Then, for the record that was found and whose node is complete: the call to the
  daemon, the check of its answer and the update of the store. The result is the
  response, the store and the requests sent.
\<close>

definition edit_found ::
    "(nat \<Rightarrow> reply) \<Rightarrow> string \<Rightarrow> store \<Rightarrow> string \<Rightarrow> jsval \<Rightarrow> jsval \<Rightarrow> int option \<Rightarrow> int option
       \<Rightarrow> response \<times> store \<times> request list" where
  "edit_found daemon now db ident instance newImage newMemory newCpu =
     (case edit_call daemon (prepareEditRequestData instance newImage newMemory newCpu) of
        (Inl e, sent) \<Rightarrow> (edit_failed e, db, sent)
      | (Inr (status, body), sent) \<Rightarrow>
          if \<not> truthy body \<or> \<not> truthy (field body ''newContainerId'')
            then (edit_failed (Error ''Invalid response from node API''), db, sent)
          else
            (case updateInstanceInDatabase now db ident instance newImage newMemory newCpu
                    (field body ''newContainerId'') of
               None \<Rightarrow> (edit_failed TypeError, db, sent)
             | Some db1 \<Rightarrow>
                 (Json 200 (JObj [(''message'', JStr ''Instance updated successfully''),
                                  (''oldContainerId'', JStr ident),
                                  (''newContainerId'', field body ''newContainerId''),
                                  (''changes'', changes newImage newMemory newCpu)]),
                  db1, sent)))"

text \<open>The check of the record's node:
  \<open>!instance.Node || !instance.Node.address || !instance.Node.port || !instance.Node.apiKey\<close>.\<close>

definition invalid_node :: "jsval \<Rightarrow> bool" where
  "invalid_node instance =
     (\<not> truthy (field instance ''Node'')
      \<or> \<not> truthy (field (field instance ''Node'') ''address'')
      \<or> \<not> truthy (field (field instance ''Node'') ''port'')
      \<or> \<not> truthy (field (field instance ''Node'') ''apiKey''))"

text \<open>The handler as a whole.\<close>

definition edit_instance ::
    "(nat \<Rightarrow> reply) \<Rightarrow> string \<Rightarrow> store \<Rightarrow> jsval \<Rightarrow> string \<Rightarrow> jsval \<Rightarrow> int option \<Rightarrow> int option
       \<Rightarrow> response \<times> store \<times> request list" where
  "edit_instance daemon now db user ident newImage newMemory newCpu =
     (case edit_rejects user ident newImage newMemory newCpu of
        Some response \<Rightarrow> (response, db, [])
      | None \<Rightarrow>
          (let instance = db_get db (ident @ ''_instance'') in
           if \<not> truthy instance
             then (Json 404 (JObj [(''message'', JStr ''Instance not found'')]), db, [])
           else if invalid_node instance
             then (Json 500 (JObj [(''message'',
                     JStr ''Invalid node configuration for this instance'')]), db, [])
           else edit_found daemon now db ident instance newImage newMemory newCpu))"

section \<open>Startup settings (routes/Instance/Startup.js)\<close>

text \<open>
  \<open>updateInstanceInUserAndGlobalArrays\<close>: in the owner's list and then in the global list,
  the entries whose \<open>Id\<close> is the record's are filtered out and the record is pushed. The
  first list is written before the second is read, so a throw in between leaves it
  written.
\<close>

definition updateInstanceInUserAndGlobalArrays :: "store \<Rightarrow> jsval \<Rightarrow> js_error option \<times> store" where
  "updateInstanceInUserAndGlobalArrays db instanceData =
     (let userKey = to_str (field instanceData ''User'') @ ''_instances'' in
      case without ''Id'' (field instanceData ''Id'') (db_get db userKey) of
        None \<Rightarrow> (Some TypeError, db)
      | Some userInstances \<Rightarrow>
          (let db1 = db_set db userKey (JArr (userInstances @ [instanceData])) in
           case without ''Id'' (field instanceData ''Id'') (db_get db1 ''instances'') of
             None \<Rightarrow> (Some TypeError, db1)
           | Some globalInstances \<Rightarrow>
               (None, db_set db1 ''instances'' (JArr (globalInstances @ [instanceData])))))"





subsection \<open>Numbers read back from a record\<close>

text \<open>\<open>parseInt\<close> is the built-in, which the model takes as a parameter: \<open>None\<close> is
  \<open>NaN\<close>.\<close>

text \<open>\<open>parseInt(x) || d\<close>.\<close>

definition int_or :: "(jsval \<Rightarrow> int option) \<Rightarrow> jsval \<Rightarrow> int \<Rightarrow> jsval" where
  "int_or parseInt x d = (case parseInt x of None \<Rightarrow> JNum d | Some n \<Rightarrow> if n = 0 then JNum d else JNum n)"

subsection \<open>Changing the image\<close>







section \<open>Reinstalling an instance\<close>

text \<open>
  The reinstall module. \<open>now\<close> is the time the record is stamped with.
\<close>

definition DEFAULT_MEMORY :: int where
  "DEFAULT_MEMORY = 512"

definition DEFAULT_CPU :: int where
  "DEFAULT_CPU = 100"

definition DEFAULT_DISK :: int where
  "DEFAULT_DISK = 10"

definition REQUEST_TIMEOUT :: nat where
  "REQUEST_TIMEOUT = 30000"

text \<open>\<open>rawImages.find((i) => i.Image === image)\<close> on \<open>(await db.get("images")) || []\<close>.\<close>

definition find_image :: "store \<Rightarrow> jsval \<Rightarrow> jsval option" where
  "find_image db img =
     Option.bind (as_array (or_empty (db_get db ''images'')))
       (js_find (\<lambda>i. map_option (\<lambda>x. strict_eq x img) (get_prop i ''Image'')))"

text \<open>
  \<open>prepareRequestData\<close> of the reinstall module. Whatever is thrown inside is caught and
  thrown again as an \<open>Error\<close> whose message starts with \<open>Failed to prepare request data\<close>.
\<close>

definition reinstall_prepareRequestData :: "store \<Rightarrow> jsval \<Rightarrow> jsval \<Rightarrow> jsval \<Rightarrow> js_error + request" where
  "reinstall_prepareRequestData db img node containerId =
     (case find_image db img of
        None \<Rightarrow> Inl (Error (''Failed to prepare request data: '' @ error_text TypeError))
      | Some imageData \<Rightarrow>
          if \<not> truthy imageData
            then Inl (Error (''Failed to prepare request data: Image '' @ to_str img
                              @ '' not found in database''))
          else if \<not> truthy (field node ''address'') \<or> \<not> truthy (field node ''port'')
                  \<or> \<not> truthy (field node ''apiKey'')
            then Inl (Error ''Failed to prepare request data: Invalid node configuration'')
          else Inr \<lparr> req_method = ''post'',
                     req_url = node_url node @ ''/instances/reinstall/'' @ to_str containerId,
                     req_password = field node ''apiKey'',
                     req_timeout = Some REQUEST_TIMEOUT \<rparr>)"

text \<open>A destructuring default, \<open>const { K: x = d } = instance\<close>: it applies to \<open>undefined\<close> only.\<close>

definition default_to :: "jsval \<Rightarrow> jsval \<Rightarrow> jsval" where
  "default_to x d = (if x = JUndef then d else x)"

text \<open>The record a reinstall stores.\<close>

definition reinstall_instanceData ::
    "(jsval \<Rightarrow> int option) \<Rightarrow> string \<Rightarrow> jsval \<Rightarrow> jsval \<Rightarrow> string \<Rightarrow> jsval \<Rightarrow> jsval" where
  "reinstall_instanceData parseInt now instance imageData ident responseData =
     JObj [(''Name'', field instance ''Name''),
           (''Id'', JStr ident),
           (''Node'', field instance ''Node''),
           (''User'', field instance ''User''),
           (''ContainerId'', field responseData ''containerId''),
           (''VolumeId'', JStr ident),
           (''Memory'', int_or parseInt (default_to (field instance ''Memory'') (JNum DEFAULT_MEMORY))
              DEFAULT_MEMORY),
           (''Cpu'', int_or parseInt (default_to (field instance ''Cpu'') (JNum DEFAULT_CPU)) DEFAULT_CPU),
           (''Disk'', int_or parseInt (default_to (field instance ''Disk'') (JNum DEFAULT_DISK))
              DEFAULT_DISK),
           (''Ports'', default_to (field instance ''Ports'') (JStr [])),
           (''Primary'', field instance ''Primary''),
           (''Image'', field instance ''Image''),
           (''AltImages'', or_empty (field imageData ''AltImages'')),
           (''imageData'', if truthy imageData then imageData else JObj []),
           (''Env'', if truthy (default_to (field instance ''Env'') (JObj []))
                     then default_to (field instance ''Env'') (JObj []) else JObj []),
           (''createdAt'', JStr now),
           (''updatedAt'', JStr now),
           (''status'', JStr ''running''),
           (''lastOperation'', JObj [(''type'', JStr ''reinstall''), (''timestamp'', JStr now),
                                     (''status'', JStr ''completed'')])]"

text \<open>
  \<open>updateDatabaseWithNewInstance\<close> of the reinstall module: each \<open>db.set\<close> is started where
  it stands, so the owner's list is written before the global list is read. Whatever is
  thrown is thrown again as an \<open>Error\<close>.
\<close>

definition reinstall_updateDatabaseWithNewInstance ::
    "(jsval \<Rightarrow> int option) \<Rightarrow> string \<Rightarrow> store \<Rightarrow> jsval \<Rightarrow> string \<Rightarrow> jsval \<Rightarrow> js_error option \<times> store" where
  "reinstall_updateDatabaseWithNewInstance parseInt now db instance ident responseData =
     (let failed = Some (Error (''Failed to update database: '' @ error_text TypeError)) in
      case find_image db (field instance ''Image'') of
        None \<Rightarrow> (failed, db)
      | Some imageData \<Rightarrow>
          (let instanceData = reinstall_instanceData parseInt now instance imageData ident responseData;
               userKey = to_str (field instance ''User'') @ ''_instances''
           in case without ''Id'' (JStr ident) (db_get db userKey) of
                None \<Rightarrow> (failed, db)
              | Some userInstances \<Rightarrow>
                  (let db1 = db_set db userKey (JArr (userInstances @ [instanceData])) in
                   case without ''Id'' (JStr ident) (db_get db1 ''instances'') of
                     None \<Rightarrow> (failed, db1)
                   | Some globalInstances \<Rightarrow>
                       (let db2 = db_set db1 ''instances'' (JArr (globalInstances @ [instanceData]));
                            db3 = db_set db2 (ident @ ''_instance'') instanceData
                        in (None, db3)))))"

text \<open>\<open>encodeURIComponent\<close> on a string of bytes.\<close>

definition encodeURIComponent :: "string \<Rightarrow> string" where
  "encodeURIComponent s =
     concat (map (\<lambda>c. if id_char c \<or> c \<in> set ''.!~*()'' \<or> c = CHR 0x27 then [c]
                       else [CHR ''%'', ''0123456789ABCDEF'' ! (of_char c div 16),
                             ''0123456789ABCDEF'' ! (of_char c mod 16)]) s)"

text \<open>
  \<open>handleReinstallError\<close>. It asks the response, not the request, for its \<open>Accept\<close>
  header, which nothing sets, so it always redirects.
\<close>

definition handleReinstallError :: "js_error \<Rightarrow> response" where
  "handleReinstallError e =
     Redirect (''../../instances?err=REINSTALL_FAILED&message='' @ encodeURIComponent
       (''Failed to reinstall container'' @
          (case e of
             AxiosResponse status body \<Rightarrow>
               '': Node responded with '' @ show_nat (if status = 0 then 502 else status)
           | AxiosNoResponse code message \<Rightarrow> '': No response received from node''
           | _ \<Rightarrow> [])))"

definition requiredFields :: "string list" where
  "requiredFields = [''Node'', ''Image'', ''Memory'', ''Cpu'', ''Name'', ''User'', ''Primary'', ''ContainerId'']"

definition missingFields :: "jsval \<Rightarrow> string list" where
  "missingFields instance = filter (\<lambda>f. \<not> truthy (field instance f)) requiredFields"

text \<open>
  \<open>POST /instance/reinstall/:id\<close>, in two parts. First what the handler does once the
  record has passed its checks: the request is prepared and sent, the answer checked
  and the store updated. \<open>daemon\<close> is the daemon's answer to the one request.
\<close>

definition reinstall_checked ::
    "(jsval \<Rightarrow> int option) \<Rightarrow> string \<Rightarrow> reply \<Rightarrow> store \<Rightarrow> jsval \<Rightarrow> string
       \<Rightarrow> response \<times> store \<times> request list" where
  "reinstall_checked parseInt now daemon db instance ident =
     (case reinstall_prepareRequestData db (field instance ''Image'') (field instance ''Node'')
             (field instance ''ContainerId'') of
        Inl e \<Rightarrow> (handleReinstallError e, db, [])
      | Inr requestData \<Rightarrow>
          (case axios default_validateStatus daemon of
             Inl e \<Rightarrow> (handleReinstallError e, db, [requestData])
           | Inr (status, body) \<Rightarrow>
               if \<not> truthy (field body ''containerId'')
                 then (handleReinstallError
                         (Error ''Invalid response from node: Missing containerId''),
                       db, [requestData])
               else
                 (case reinstall_updateDatabaseWithNewInstance parseInt now db instance ident body of
                    (Some e, db1) \<Rightarrow> (handleReinstallError e, db1, [requestData])
                  | (None, db1) \<Rightarrow>
                      (Redirect (''../../instance/'' @ ident), db1, [requestData]))))"

text \<open>The handler as a whole; \<open>user\<close> is \<open>req.user\<close>, \<open>ident\<close> the route parameter.\<close>

definition reinstall ::
    "(jsval \<Rightarrow> int option) \<Rightarrow> string \<Rightarrow> reply \<Rightarrow> store \<Rightarrow> jsval \<Rightarrow> string
       \<Rightarrow> response \<times> store \<times> request list" where
  "reinstall parseInt now daemon db user ident =
     (if \<not> truthy user then (Redirect ''/'', db, [])
      else if ident = [] then (Redirect ''/instances?err=MISSING_INSTANCE_ID'', db, [])
      else
        (let instance = db_get db (ident @ ''_instance'') in
         if \<not> truthy instance then (Redirect ''/instances?err=INSTANCE_NOT_FOUND'', db, [])
         else if \<not> isUserAuthorizedForContainer db (field user ''userId'') (field instance ''Id'')
           then (Render 403 ''error'', db, [])
         else if strict_eq (field instance ''suspended'') (JBool True)
           then (Redirect ''../../instances?err=SUSPENDED'', db, [])
         else if missingFields instance \<noteq> []
           then (Json 400 (JObj [(''error'', JStr ''Missing required parameters''),
                                 (''missingFields'', JArr (map JStr (missingFields instance)))]),
                 db, [])
         else reinstall_checked parseInt now daemon db instance ident))"

section \<open>The three copies of a record\<close>



section \<open>Example data\<close>

text \<open>
  A small panel: an administrator \<open>u1\<close>, a plain user \<open>u2\<close> who owns the instance \<open>srv1\<close>,
  stored under its key, in the owner's list and in the global list, one image and one
  node.
\<close>

definition ex_node :: jsval where
  "ex_node = JObj [(''id'', JStr ''n1''), (''address'', JStr ''10.0.0.5''), (''port'', JNum 3002),
                   (''apiKey'', JStr ''secret'')]"

definition ex_instance :: jsval where
  "ex_instance = JObj [(''Name'', JStr ''web''), (''Id'', JStr ''srv1''), (''Node'', ex_node),
                       (''User'', JStr ''u2''), (''ContainerId'', JStr ''c0ffee''),
                       (''VolumeId'', JStr ''srv1''), (''Memory'', JNum 1024), (''Cpu'', JNum 100),
                       (''Primary'', JStr ''25565''), (''Image'', JStr ''img/java''),
                       (''imageData'', JObj [(''Image'', JStr ''img/java'')]),
                       (''Env'', JArr [JStr ''EULA=true''])]"

definition ex_admin :: jsval where
  "ex_admin = JObj [(''userId'', JStr ''u1''), (''username'', JStr ''root''), (''admin'', JBool True)]"

definition ex_owner :: jsval where
  "ex_owner = JObj [(''userId'', JStr ''u2''), (''username'', JStr ''ann''), (''admin'', JBool False)]"

definition ex_db :: store where
  "ex_db = [''users'' \<mapsto> JArr [ex_admin, ex_owner],
            ''images'' \<mapsto> JArr [JObj [(''Image'', JStr ''img/java'')]],
            ''n1_node'' \<mapsto> ex_node,
            ''srv1_instance'' \<mapsto> ex_instance,
            ''u2_instances'' \<mapsto> JArr [ex_instance],
            ''instances'' \<mapsto> JArr [ex_instance]]"

text \<open>A record without an \<open>Id\<close>, as \<open>isInstanceSuspended\<close> creates one for a key it does not
  find.\<close>

definition ex_bare :: jsval where
  "ex_bare = JObj [(''suspended'', JBool False), (''createdAt'', JStr ''2024-01-01T00:00:00.000Z''),
                   (''lastUpdated'', JStr ''2024-01-01T00:00:00.000Z'')]"

definition ex_db_bare :: store where
  "ex_db_bare = ex_db(''srv2_instance'' \<mapsto> ex_bare)"

text \<open>The clock of the examples, and the request a delete of \<open>srv1\<close> sends through the API
  route.\<close>

definition ex_clock :: "nat \<Rightarrow> string" where
  "ex_clock k = ''2024-05-0'' @ show_nat (Suc k) @ ''T00:00:00.000Z''"

definition ex_delete_request :: request where
  "ex_delete_request =
     \<lparr> req_method = ''delete'', req_url = ''http://10.0.0.5:3002/instances/c0ffee'',
       req_password = JStr ''secret'', req_timeout = None \<rparr>"


text \<open>
  A daemon that answers every edit with a new container \<open>c1\<close>, and one that fails the
  first request with 503 before it does.
\<close>

definition ex_daemon :: "nat \<Rightarrow> reply" where
  "ex_daemon k = Responded 200 (JObj [(''newContainerId'', JStr ''c1'')])"


text \<open>
  The panel after an admin suspended \<open>srv1\<close> (the record under its key and the global
  list carry the flag), and the panel with both lists emptied.
\<close>

definition ex_suspended :: jsval where
  "ex_suspended = with_field ex_instance ''suspended'' (JBool True)"


definition ex_db_pruned :: store where
  "ex_db_pruned = ex_db(''u2_instances'' \<mapsto> JArr [], ''instances'' \<mapsto> JArr [])"

text \<open>The requests an edit and a reinstall of \<open>srv1\<close> send, and the answer of an edit that
  sets the memory to 2048.\<close>

definition ex_edit_request :: request where
  "ex_edit_request =
     \<lparr> req_method = ''put'', req_url = ''http://10.0.0.5:3002/instances/edit/c0ffee'',
       req_password = JStr ''secret'', req_timeout = Some 15000 \<rparr>"


definition ex_edit_ok :: response where
  "ex_edit_ok =
     Json 200 (JObj [(''message'', JStr ''Instance updated successfully''),
       (''oldContainerId'', JStr ''srv1''), (''newContainerId'', JStr ''c1''),
       (''changes'', JObj [(''Image'', JStr ''unchanged''), (''Memory'', JStr ''updated''),
                           (''Cpu'', JStr ''unchanged'')])])"



section \<open>Renaming an instance\<close>

text \<open>
  \<open>String.prototype.trim\<close> removes the white space at both ends. Of the characters below
  256 these are the tab, the line feed, the vertical tab, the form feed, the carriage
  return, the space and the no-break space.
\<close>

definition js_whitespace :: "char \<Rightarrow> bool" where
  "js_whitespace c = (c \<in> set [CHR 0x09, CHR 0x0A, CHR 0x0B, CHR 0x0C, CHR 0x0D, CHR 0x20, CHR 0xA0])"

definition trim :: "string \<Rightarrow> string" where
  "trim s = rev (dropWhile js_whitespace (rev (dropWhile js_whitespace s)))"

subsection \<open>The route of routes/Instance/Instance.js\<close>

definition rename_failure :: "nat \<Rightarrow> string \<Rightarrow> response" where
  "rename_failure status message =
     Json status (JObj [(''success'', JBool False), (''error'', JStr message)])"

text \<open>
  One list of the rename: under \<open>key\<close>, the first entry whose \<open>Id\<close> is the route's id gets
  the new name and the list is written back; without such an entry nothing is written.
  \<open>None\<close> is a TypeError (the value is not an array, or an entry before the match is
  \<open>null\<close>).
\<close>

definition rename_in_list :: "store \<Rightarrow> string \<Rightarrow> string \<Rightarrow> string \<Rightarrow> store option" where
  "rename_in_list db key ident trimmedName =
     (case as_array (or_empty (db_get db key)) of
        None \<Rightarrow> None
      | Some insts \<Rightarrow>
          (case js_findIndex (\<lambda>i. map_option (\<lambda>x. strict_eq x (JStr ident)) (get_prop i ''Id'')) insts of
             None \<Rightarrow> None
           | Some None \<Rightarrow> Some db
           | Some (Some index) \<Rightarrow>
               Some (db_set db key
                       (JArr (insts[index := set_field (insts ! index) ''Name'' (JStr trimmedName)])))))"

text \<open>
  \<open>POST /instance/:id/rename\<close>, from the handler body on (the \<open>isAuthenticated\<close> middleware
  is not part of the sources). \<open>user\<close> is \<open>req.user\<close>, \<open>ident\<close> the route parameter, \<open>newName\<close>
  is \<open>req.body.newName\<close>. The record is written under its key, then the global list, then
  the list of the caller, \<open>req.user.userId\<close>. When one of the lists throws, the record is
  written back under its key with its old name, and what was written to the global list
  stays.
\<close>

definition rename_instance :: "store \<Rightarrow> jsval \<Rightarrow> string \<Rightarrow> jsval \<Rightarrow> response \<times> store" where
  "rename_instance db user ident newName =
     (if \<not> validateInstanceId ident then (rename_failure 400 ''Invalid instance ID'', db)
      else if \<not> truthy newName \<or> \<not> is_string newName \<or> length (trim (to_str newName)) = 0
        then (rename_failure 400 ''Invalid name provided'', db)
      else
        (let trimmedName = trim (to_str newName) in
         if length trimmedName > 64
           then (rename_failure 400 ''Name too long (max 64 characters)'', db)
         else
           (let instance = db_get db (ident @ ''_instance'') in
            if \<not> truthy instance then (rename_failure 404 ''Instance not found'', db)
            else
              (case get_prop user ''userId'' of
                 None \<Rightarrow> (rename_failure 500 ''Internal Server Error'', db)
               | Some userId \<Rightarrow>
                   if \<not> isUserAuthorizedForContainer db userId (field instance ''Id'')
                     then (rename_failure 403 ''Unauthorized access to this instance.'', db)
                   else
                     (let oldName = field instance ''Name'';
                          renamed = set_field instance ''Name'' (JStr trimmedName);
                          db1 = db_set db (ident @ ''_instance'') renamed;
                          reverted = (\<lambda>d. (rename_failure 500 ''Failed to update instance name'',
                                            db_set d (ident @ ''_instance'')
                                              (set_field renamed ''Name'' oldName)))
                      in case rename_in_list db1 ''instances'' ident trimmedName of
                           None \<Rightarrow> reverted db1
                         | Some db2 \<Rightarrow>
                             (case rename_in_list db2 (to_str userId @ ''_instances'') ident trimmedName of
                                None \<Rightarrow> reverted db2
                              | Some db3 \<Rightarrow>
                                  (Json 200 (JObj [(''success'', JBool True),
                                                   (''newName'', JStr trimmedName),
                                                   (''oldName'', oldName)]),
                                   db3)))))))"

subsection \<open>The route of routes/Instance/Startup.js\<close>

definition name_char :: "char \<Rightarrow> bool" where
  "name_char c = (c \<in> set ''abcdefghijklmnopqrstuvwxyzABCDEFGHIJKLMNOPQRSTUVWXYZ0123456789 '')"

text \<open>
  \<open>GET /instance/:id/change/name/:name\<close>. After its checks the handler calls
  \<open>isInstanceSuspended\<close>, which the module neither defines nor imports: the call throws a
  ReferenceError outside any \<open>try\<close>, so the handler ends there, before the first write,
  and answers nothing (\<open>None\<close>).
\<close>

definition change_name :: "store \<Rightarrow> jsval \<Rightarrow> string \<Rightarrow> string \<Rightarrow> response option \<times> store" where
  "change_name db user ident name =
     (if \<not> truthy user then (Some (Send 401 ''Authentication required''), db)
      else if name = [] \<or> trim name = [] then (Some (Send 400 ''Name cannot be empty''), db)
      else if length name > 50 then (Some (Send 400 ''Name cannot exceed 50 characters''), db)
      else if \<not> list_all name_char name
        then (Some (Send 400 ''Name can only contain alphanumeric characters and spaces''), db)
      else
        (let instance = db_get db (ident @ ''_instance'') in
         if \<not> truthy instance then (Some (Send 404 ''Instance not found''), db)
         else if \<not> isUserAuthorizedForContainer db (field user ''userId'') (field instance ''Id'')
           then (Some (Send 403 ''Unauthorized access to this instance.''), db)
         else (None, db)))"

text \<open>The record of \<open>srv1\<close> and the panel after the administrator renamed it \<open>db\<close>.\<close>

definition ex_renamed :: jsval where
  "ex_renamed = set_field ex_instance ''Name'' (JStr ''db'')"

definition ex_db_renamed :: store where
  "ex_db_renamed = ex_db(''srv1_instance'' \<mapsto> ex_renamed, ''instances'' \<mapsto> JArr [ex_renamed])"

section \<open>Basic facts about values and the store\<close>

text \<open>A number below \<open>2^53\<close> is written with all its digits.\<close>

lemma number_to_string_small [simp]: "x < 2 ^ 53 \<Longrightarrow> number_to_string x = show_nat x"
  by (simp add: number_to_string_def)

lemma field_set_field_same: "field (set_field (JObj kvs) k x) k = x"
  by (simp add: update_conv')



lemma field_with_field_other: "k' \<noteq> k \<Longrightarrow> field (with_field (JObj kvs) k x) k' = field (JObj kvs) k'"
  by (simp add: with_field_def update_conv')

lemma truthy_field_is_object: "truthy (field v k) \<Longrightarrow> \<exists>kvs. v = JObj kvs"
  by (cases v) simp_all

lemma authorized_is_object:
  "isUserAuthorizedForContainer db u (field v ''Id'') \<Longrightarrow> \<exists>kvs. v = JObj kvs"
  by (cases v) (simp_all add: isUserAuthorizedForContainer_def)

lemma ex_admin_found: "find_user (db_get ex_db ''users'') (JStr ''u1'') = Some ex_admin"
  by (simp add: find_user_def db_get_def ex_db_def ex_admin_def get_prop_def)

lemma ex_owner_found: "find_user (db_get ex_db ''users'') (JStr ''u2'') = Some ex_owner"
  by (simp add: find_user_def db_get_def ex_db_def ex_admin_def ex_owner_def get_prop_def)

lemma ex_owner_authorized: "isUserAuthorizedForContainer ex_db (JStr ''u2'') (JStr ''srv1'')"
  by (simp add: isUserAuthorizedForContainer_def ex_owner_found)
     (simp add: ex_owner_def or_empty_def db_get_def ex_db_def ex_instance_def get_prop_def)

section \<open>Administrators are authorized\<close>

text \<open>
  C9, as the code has it. A user whose record, the first in \<open>users\<close> with that user id,
  has a truthy \<open>admin\<close> is authorized for every container id that is not falsy (the
  function starts by refusing an empty or missing user id or container id), whatever the
  user's own list and \<open>accessTo\<close> hold.
\<close>

theorem admin_authorized_for_every_nonempty_id:
  assumes "truthy userId" and "truthy containerId"
    and "find_user (db_get db ''users'') userId = Some user"
    and "truthy (field user ''admin'')"
  shows "isUserAuthorizedForContainer db userId containerId"
proof -
  have "truthy user"
    using assms(4) by (cases user) simp_all
  with assms show ?thesis
    by (simp add: isUserAuthorizedForContainer_def)
qed

theorem admin_authorized_witness:
  "truthy (JStr ''u1'') \<and> truthy (JStr ''c0ffee'')
   \<and> find_user (db_get ex_db ''users'') (JStr ''u1'') = Some ex_admin
   \<and> truthy (field ex_admin ''admin'')
   \<and> isUserAuthorizedForContainer ex_db (JStr ''u1'') (JStr ''c0ffee'')"
proof -
  have adm: "truthy (field ex_admin ''admin'')"
    by (simp add: ex_admin_def)
  have "isUserAuthorizedForContainer ex_db (JStr ''u1'') (JStr ''c0ffee'')"
    using admin_authorized_for_every_nonempty_id [OF _ _ ex_admin_found adm, of "JStr ''c0ffee''"]
    by simp
  then show ?thesis
    using ex_admin_found adm by simp
qed

text \<open>
  The claim as stated fails where the container id is falsy: the administrator \<open>u1\<close> is
  refused for the record \<open>srv2\<close>, which has no \<open>Id\<close>, and the view route answers 403.
\<close>

theorem admin_refused_without_id:
  "find_user (db_get ex_db_bare ''users'') (JStr ''u1'') = Some ex_admin
   \<and> truthy (field ex_admin ''admin'')
   \<and> \<not> isUserAuthorizedForContainer ex_db_bare (JStr ''u1'') (field ex_bare ''Id'')
   \<and> fst (view_instance ex_db_bare ex_admin ''srv2'') = Render 403 ''error''"
proof -
  have "find_user (db_get ex_db_bare ''users'') (JStr ''u1'') = Some ex_admin"
    using ex_admin_found by (simp add: ex_db_bare_def db_get_def)
  moreover have "truthy (field ex_admin ''admin'')"
    by (simp add: ex_admin_def)
  moreover have noId: "field ex_bare ''Id'' = JUndef"
    by (simp add: ex_bare_def)
  moreover have "\<not> isUserAuthorizedForContainer ex_db_bare (JStr ''u1'') JUndef"
    by (simp add: isUserAuthorizedForContainer_def)
  moreover have "fst (view_instance ex_db_bare ex_admin ''srv2'') = Render 403 ''error''"
  proof -
    have "db_get ex_db_bare ''srv2_instance'' = ex_bare"
      by (simp add: ex_db_bare_def db_get_def)
    moreover have "validateInstanceId ''srv2''"
      by (simp add: validateInstanceId_def id_char_def)
    moreover have "truthy ex_admin" "truthy ex_bare"
      by (simp_all add: ex_admin_def ex_bare_def)
    ultimately show ?thesis
      using noId by (simp add: view_instance_def isUserAuthorizedForContainer_def)
  qed
  ultimately show ?thesis by simp
qed

section \<open>Viewing an instance normalises the stored record\<close>

text \<open>
  C10. When an authorized user views an existing instance, the handler writes the
  record back under its key with \<open>suspended\<close> a boolean (the old value when it was one,
  \<open>false\<close> otherwise) and \<open>State\<close> truthy (the old value when it was, \<open>"UNKNOWN"\<close>
  otherwise); every other field is as it was. This holds whichever page the handler
  then answers with.
\<close>

theorem view_instance_normalises_record:
  assumes "truthy user" and "validateInstanceId ident"
    and "truthy (db_get db (ident @ ''_instance''))"
    and "isUserAuthorizedForContainer db (field user ''userId'')
           (field (db_get db (ident @ ''_instance'')) ''Id'')"
  shows "\<exists>r. snd (view_instance db user ident) (ident @ ''_instance'') = Some r
           \<and> is_boolean (field r ''suspended'') \<and> truthy (field r ''State'')
           \<and> field r ''suspended'' =
               (if is_boolean (field (db_get db (ident @ ''_instance'')) ''suspended'')
                then field (db_get db (ident @ ''_instance'')) ''suspended'' else JBool False)
           \<and> field r ''State'' =
               (if truthy (field (db_get db (ident @ ''_instance'')) ''State'')
                then field (db_get db (ident @ ''_instance'')) ''State'' else JStr ''UNKNOWN'')
           \<and> (\<forall>k. k \<noteq> ''suspended'' \<and> k \<noteq> ''State''
                 \<longrightarrow> field r k = field (db_get db (ident @ ''_instance'')) k)"
proof -
  obtain kvs where v: "db_get db (ident @ ''_instance'') = JObj kvs"
    using authorized_is_object [OF assms(4)] by blast
  show ?thesis
    using assms unfolding v view_instance_def
    by (auto simp add: Let_def db_set_def update_conv')
qed

lemma ex_srv1_stored: "db_get ex_db ''srv1_instance'' = ex_instance"
  by (simp add: db_get_def ex_db_def)

theorem view_instance_normalises_witness:
  "truthy ex_owner \<and> validateInstanceId ''srv1''
   \<and> truthy (db_get ex_db (''srv1'' @ ''_instance''))
   \<and> isUserAuthorizedForContainer ex_db (field ex_owner ''userId'')
        (field (db_get ex_db (''srv1'' @ ''_instance'')) ''Id'')
   \<and> (\<exists>r. snd (view_instance ex_db ex_owner ''srv1'') (''srv1'' @ ''_instance'') = Some r
          \<and> field r ''suspended'' = JBool False \<and> field r ''State'' = JStr ''UNKNOWN'')"
proof -
  have h1: "truthy ex_owner"
    by (simp add: ex_owner_def)
  have h2: "validateInstanceId ''srv1''"
    by (simp add: validateInstanceId_def id_char_def)
  have h3: "truthy (db_get ex_db (''srv1'' @ ''_instance''))"
    using ex_srv1_stored by (simp add: ex_instance_def)
  have h4: "isUserAuthorizedForContainer ex_db (field ex_owner ''userId'')
              (field (db_get ex_db (''srv1'' @ ''_instance'')) ''Id'')"
    using ex_owner_authorized ex_srv1_stored by (simp add: ex_owner_def ex_instance_def)
  have old: "field (db_get ex_db (''srv1'' @ ''_instance'')) ''suspended'' = JUndef"
            "field (db_get ex_db (''srv1'' @ ''_instance'')) ''State'' = JUndef"
    using ex_srv1_stored by (simp_all add: ex_instance_def)
  from view_instance_normalises_record [OF h1 h2 h3 h4]
  obtain r where "snd (view_instance ex_db ex_owner ''srv1'') (''srv1'' @ ''_instance'') = Some r"
      and "field r ''suspended'' = JBool False" and "field r ''State'' = JStr ''UNKNOWN''"
    unfolding old by auto
  then show ?thesis
    using h1 h2 h3 h4 by blast
qed

section \<open>Keys never collide\<close>

text \<open>A per-instance key ends in \<open>_instance\<close>, a user's list key in \<open>_instances\<close>; the
  global list is \<open>instances\<close>.\<close>

lemma instance_key_not_list_key [simp]:
  "a @ ''_instance'' \<noteq> b @ ''_instances''" "b @ ''_instances'' \<noteq> a @ ''_instance''"
proof -
  have "last (a @ ''_instance'') \<noteq> last (b @ ''_instances'')" by simp
  then show "a @ ''_instance'' \<noteq> b @ ''_instances''" by metis
  then show "b @ ''_instances'' \<noteq> a @ ''_instance''" by metis
qed

lemma instance_key_not_global [simp]:
  "a @ ''_instance'' \<noteq> ''instances''" "''instances'' \<noteq> a @ ''_instance''"
proof -
  have "last (a @ ''_instance'') \<noteq> last ''instances''" by simp
  then show "a @ ''_instance'' \<noteq> ''instances''" by metis
  then show "''instances'' \<noteq> a @ ''_instance''" by metis
qed

lemma list_key_not_global [simp]:
  "b @ ''_instances'' \<noteq> ''instances''" "''instances'' \<noteq> b @ ''_instances''"
proof -
  have "length (b @ ''_instances'') \<noteq> length ''instances''" by simp
  then show "b @ ''_instances'' \<noteq> ''instances''" by metis
  then show "''instances'' \<noteq> b @ ''_instances''" by metis
qed

lemma workflow_key_not_list_key [simp]:
  "a @ ''_workflow'' \<noteq> b @ ''_instances''" "a @ ''_workflow'' \<noteq> ''instances''"
proof -
  have "last (a @ ''_workflow'') \<noteq> last (b @ ''_instances'')" by simp
  then show "a @ ''_workflow'' \<noteq> b @ ''_instances''" by metis
  have "last (a @ ''_workflow'') \<noteq> last ''instances''" by simp
  then show "a @ ''_workflow'' \<noteq> ''instances''" by metis
qed

section \<open>Filtering a list\<close>

lemma js_filter_Some: "js_filter p xs = Some ys \<Longrightarrow> ys = filter (\<lambda>x. p x = Some True) xs"
  by (induction xs arbitrary: ys) (auto split: option.splits if_splits)

lemma without_entries:
  assumes "without k v list = Some ys"
  shows "\<forall>e \<in> set ys. \<not> strict_eq (field e k) v"
proof -
  obtain xs where "js_filter (\<lambda>obj. map_option (\<lambda>x. \<not> strict_eq x v) (get_prop obj k)) xs = Some ys"
    using assms by (auto simp add: without_def split: option.splits Option.bind_splits)
  from js_filter_Some [OF this] show ?thesis
    by (auto simp add: get_prop_def split: if_splits)
qed

section \<open>Reinstall refuses a record with a missing field\<close>






section \<open>Deleting when the daemon fails\<close>

text \<open>
  C2 on the API route. The comment in \<open>deleteInstance\<close> of \<open>routes/api.js\<close> says that the
  records should be cleaned up even if the node is down, but the call to the daemon sits
  in the same \<open>try\<close> block as the cleanup and the \<open>catch\<close> throws the error again: when the
  daemon answers 500 the handler answers 500 and the instance is still stored under its
  key, in the owner's list and in the global list.
\<close>

lemma api_delete_remote_failure:
  assumes "truthy ident" and "truthy (db_get db (to_str ident @ ''_instance''))"
    and "axios default_validateStatus daemon = Inl e"
  shows "fst (api_delete daemon db ident) = errorResponse 500 ''Failed to delete instance''
         \<and> fst (snd (api_delete daemon db ident)) = db"
  using assms
  by (simp add: api_delete_def api_deleteInstance_def Let_def split: option.splits)

theorem api_delete_keeps_records_when_daemon_fails:
  "api_delete (Responded 500 JNull) ex_db (JStr ''srv1'') =
     (errorResponse 500 ''Failed to delete instance'', ex_db, [ex_delete_request])
   \<and> ex_db ''srv1_instance'' = Some ex_instance
   \<and> ex_db ''u2_instances'' = Some (JArr [ex_instance])
   \<and> ex_db ''instances'' = Some (JArr [ex_instance])"
proof -
  have "api_delete (Responded 500 JNull) ex_db (JStr ''srv1'') =
     (errorResponse 500 ''Failed to delete instance'', ex_db, [ex_delete_request])"
    by (simp add: api_delete_def api_deleteInstance_def ex_srv1_stored)
       (simp add: ex_instance_def ex_node_def get_prop_def axios_def default_validateStatus_def
          node_url_def errorResponse_def ex_delete_request_def)
  then show ?thesis
    by (simp add: ex_db_def)
qed

text \<open>
  The admin route does what the comment asks: whatever the daemon answers, a valid
  record whose lists can be filtered is removed from its key and from both lists.
\<close>

lemma admin_deleteInstance_cleans_up:
  assumes "validateInstance instance = None"
    and "without ''Id'' (field instance ''Id'')
           (db_get db (to_str (field instance ''User'') @ ''_instances'')) = Some us"
    and "without ''Id'' (field instance ''Id'') (db_get db ''instances'') = Some gs"
  shows "\<exists>db' sent. admin_deleteInstance daemon file_error db instance = (file_error, db', sent)
           \<and> db' (to_str (field instance ''Id'') @ ''_instance'') = None
           \<and> db' (to_str (field instance ''User'') @ ''_instances'') = Some (JArr us)
           \<and> db' ''instances'' = Some (JArr gs)
           \<and> (\<forall>e \<in> set us. \<not> strict_eq (field e ''Id'') (field instance ''Id''))
           \<and> (\<forall>e \<in> set gs. \<not> strict_eq (field e ''Id'') (field instance ''Id''))"
  using assms without_entries [OF assms(2)] without_entries [OF assms(3)]
  by (simp add: admin_deleteInstance_def Let_def db_set_def db_delete_def)

section \<open>Unsuspending through the API\<close>

text \<open>
  C8 on the API route. \<open>POST /api/instances/unsuspend\<close> clears the flag and then reads
  \<open>req.user.userId\<close> for the audit log; a request that is authenticated by its API key
  alone has no \<open>req.user\<close>, so the handler ends in its \<open>catch\<close> and answers 500, the first
  time and the second, although the flag is \<open>false\<close> after each call.
\<close>

lemma api_unsuspend_without_user:
  assumes "truthy ident" and "truthy (db_get db (to_str ident @ ''_instance''))"
  shows "fst (api_unsuspend clock db JUndef ident) = errorResponse 500 ''Failed to unsuspend instance''"
  using assms by (simp add: api_unsuspend_def Let_def get_prop_def split: option.splits)

lemma api_unsuspend_clears_flag:
  assumes "truthy ident" and "db_get db (to_str ident @ ''_instance'') = JObj kvs"
  shows "\<exists>kvs'. db_get (snd (api_unsuspend clock db user ident)) (to_str ident @ ''_instance'') = JObj kvs'
           \<and> field (JObj kvs') ''suspended'' = JBool False"
  using assms
  by (simp add: api_unsuspend_def Let_def db_get_def db_set_def update_conv' split: option.splits)

theorem api_unsuspend_twice_without_session_user:
  "fst (api_unsuspend ex_clock ex_db JUndef (JStr ''srv1'')) =
     errorResponse 500 ''Failed to unsuspend instance''
   \<and> field (db_get (snd (api_unsuspend ex_clock ex_db JUndef (JStr ''srv1''))) ''srv1_instance'')
        ''suspended'' = JBool False
   \<and> fst (api_unsuspend ex_clock (snd (api_unsuspend ex_clock ex_db JUndef (JStr ''srv1''))) JUndef
        (JStr ''srv1'')) = errorResponse 500 ''Failed to unsuspend instance''
   \<and> field (db_get (snd (api_unsuspend ex_clock
        (snd (api_unsuspend ex_clock ex_db JUndef (JStr ''srv1''))) JUndef (JStr ''srv1'')))
        ''srv1_instance'') ''suspended'' = JBool False"
proof -
  define db1 where "db1 = snd (api_unsuspend ex_clock ex_db JUndef (JStr ''srv1''))"
  have id: "truthy (JStr ''srv1'')" "to_str (JStr ''srv1'') @ ''_instance'' = ''srv1_instance''"
    by simp_all
  have stored0: "db_get ex_db (to_str (JStr ''srv1'') @ ''_instance'') = JObj (own_fields ex_instance)"
    using ex_srv1_stored by (simp add: ex_instance_def)
  have first: "fst (api_unsuspend ex_clock ex_db JUndef (JStr ''srv1'')) =
      errorResponse 500 ''Failed to unsuspend instance''"
    using api_unsuspend_without_user [OF id(1), of ex_db ex_clock] stored0 by simp
  obtain kvs1 where stored1: "db_get db1 (to_str (JStr ''srv1'') @ ''_instance'') = JObj kvs1"
      and flag1: "field (JObj kvs1) ''suspended'' = JBool False"
    using api_unsuspend_clears_flag [OF id(1) stored0, of ex_clock JUndef] unfolding db1_def by blast
  have second: "fst (api_unsuspend ex_clock db1 JUndef (JStr ''srv1'')) =
      errorResponse 500 ''Failed to unsuspend instance''"
    using api_unsuspend_without_user [OF id(1), of db1 ex_clock] stored1 by simp
  obtain kvs2 where stored2: "db_get (snd (api_unsuspend ex_clock db1 JUndef (JStr ''srv1'')))
        (to_str (JStr ''srv1'') @ ''_instance'') = JObj kvs2"
      and flag2: "field (JObj kvs2) ''suspended'' = JBool False"
    using api_unsuspend_clears_flag [OF id(1) stored1, of ex_clock JUndef] by blast
  show ?thesis
    using first second stored1 flag1 stored2 flag2 unfolding db1_def id(2) by simp
qed

section \<open>Finding an entry in a list\<close>

lemma js_filter_defined: "js_filter p xs = Some ys \<Longrightarrow> \<forall>x \<in> set xs. p x \<noteq> None"
  by (induction xs arbitrary: ys) (auto split: option.splits if_splits)

lemma without_Some:
  assumes "without k v list = Some ys"
  shows "\<exists>xs. as_array (or_empty list) = Some xs
           \<and> (\<forall>e \<in> set xs. e \<noteq> JUndef \<and> e \<noteq> JNull)
           \<and> ys = filter (\<lambda>e. \<not> strict_eq (field e k) v) xs"
proof -
  let ?p = "\<lambda>obj. map_option (\<lambda>x. \<not> strict_eq x v) (get_prop obj k)"
  obtain xs where a: "as_array (or_empty list) = Some xs" and f: "js_filter ?p xs = Some ys"
    using assms by (auto simp add: without_def split: Option.bind_splits)
  have nn: "\<forall>e \<in> set xs. e \<noteq> JUndef \<and> e \<noteq> JNull"
    using js_filter_defined [OF f] by (auto simp add: get_prop_def)
  have "ys = filter (\<lambda>x. ?p x = Some True) xs"
    using js_filter_Some [OF f] .
  also have "\<dots> = filter (\<lambda>e. \<not> strict_eq (field e k) v) xs"
    using nn by (intro filter_cong) (auto simp add: get_prop_def)
  finally show ?thesis using a nn by blast
qed

lemma js_findIndex_none:
  "js_findIndex p xs = Some None \<Longrightarrow> \<forall>x \<in> set xs. p x = Some False"
  by (induction xs) (auto split: option.splits if_splits)

lemma js_findIndex_some:
  "js_findIndex p xs = Some (Some i) \<Longrightarrow>
     i < length xs \<and> p (xs ! i) = Some True \<and> (\<forall>j < i. p (xs ! j) = Some False)"
proof (induction xs arbitrary: i)
  case Nil
  then show ?case by simp
next
  case (Cons x xs)
  show ?case
  proof (cases "p x")
    case None
    with Cons.prems show ?thesis by simp
  next
    case (Some b)
    show ?thesis
    proof (cases b)
      case True
      with Some Cons.prems show ?thesis by simp
    next
      case False
      with Some Cons.prems obtain i' where i': "js_findIndex p xs = Some (Some i')" "i = Suc i'"
        by (auto split: option.splits)
      from Cons.IH [OF i'(1)] Some False i'(2) show ?thesis
        by (auto simp add: less_Suc_eq_0_disj)
    qed
  qed
qed

lemma match_ContainerId:
  "map_option (\<lambda>c. strict_eq c v) (get_prop e ''ContainerId'') = Some b \<Longrightarrow>
     strict_eq (field e ''ContainerId'') v = b"
  by (auto simp add: get_prop_def split: if_splits)

lemma merge_into_list_cases:
  assumes "merge_into_list key ident r list = Some ops"
  shows "\<exists>insts. as_array (or_empty list) = Some insts
           \<and> ((\<forall>e \<in> set insts. \<not> strict_eq (field e ''ContainerId'') (JStr ident)) \<and> ops = []
              \<or> (\<exists>i < length insts. strict_eq (field (insts ! i) ''ContainerId'') (JStr ident)
                    \<and> (\<forall>j < i. \<not> strict_eq (field (insts ! j) ''ContainerId'') (JStr ident))
                    \<and> ops = [BSet key (JArr (insts[i := spread (insts ! i) r]))]))"
proof -
  let ?p = "\<lambda>inst. map_option (\<lambda>c. strict_eq c (JStr ident)) (get_prop inst ''ContainerId'')"
  obtain insts where a: "as_array (or_empty list) = Some insts"
    using assms by (auto simp add: merge_into_list_def split: option.splits)
  then obtain res where f: "js_findIndex ?p insts = Some res"
    using assms by (auto simp add: merge_into_list_def split: option.splits)
  show ?thesis
  proof (cases res)
    case None
    with js_findIndex_none [of ?p insts] f
    have "\<forall>e \<in> set insts. \<not> strict_eq (field e ''ContainerId'') (JStr ident)"
      using match_ContainerId by blast
    moreover have "ops = []"
      using assms a f None by (simp add: merge_into_list_def)
    ultimately show ?thesis using a by blast
  next
    case (Some i)
    with js_findIndex_some [of ?p insts i] f
    have "i < length insts" "strict_eq (field (insts ! i) ''ContainerId'') (JStr ident)"
      "\<forall>j < i. \<not> strict_eq (field (insts ! j) ''ContainerId'') (JStr ident)"
      using match_ContainerId by blast+
    moreover have "ops = [BSet key (JArr (insts[i := spread (insts ! i) r]))]"
      using assms a f Some by (simp add: merge_into_list_def)
    ultimately show ?thesis using a by blast
  qed
qed


section \<open>What the two synchronizers do to the lists\<close>

text \<open>
  \<open>updateInstanceInUserAndGlobalArrays\<close>, when it does not throw: both lists lose the
  entries with the record's \<open>Id\<close> and gain the record at the end; no other key changes.
\<close>

lemma sync_by_Id:
  assumes "updateInstanceInUserAndGlobalArrays db r = (None, db')"
  shows "\<exists>us gs. as_array (or_empty (db_get db (to_str (field r ''User'') @ ''_instances''))) = Some us
          \<and> as_array (or_empty (db_get db ''instances'')) = Some gs
          \<and> db' (to_str (field r ''User'') @ ''_instances'') =
               Some (JArr (filter (\<lambda>e. \<not> strict_eq (field e ''Id'') (field r ''Id'')) us @ [r]))
          \<and> db' ''instances'' =
               Some (JArr (filter (\<lambda>e. \<not> strict_eq (field e ''Id'') (field r ''Id'')) gs @ [r]))
          \<and> (\<forall>k. k \<noteq> to_str (field r ''User'') @ ''_instances'' \<and> k \<noteq> ''instances'' \<longrightarrow> db' k = db k)"
proof -
  let ?uk = "to_str (field r ''User'') @ ''_instances''"
  obtain ys where u: "without ''Id'' (field r ''Id'') (db_get db ?uk) = Some ys"
    using assms by (auto simp add: updateInstanceInUserAndGlobalArrays_def Let_def split: option.splits)
  define db1 where "db1 = db_set db ?uk (JArr (ys @ [r]))"
  have g1: "db_get db1 ''instances'' = db_get db ''instances''"
    by (simp add: db1_def db_get_def db_set_def)
  obtain zs where g: "without ''Id'' (field r ''Id'') (db_get db ''instances'') = Some zs"
    using assms u g1
    by (auto simp add: updateInstanceInUserAndGlobalArrays_def Let_def db1_def split: option.splits)
  have db': "db' = db_set db1 ''instances'' (JArr (zs @ [r]))"
    using assms u g g1
    by (simp add: updateInstanceInUserAndGlobalArrays_def Let_def db1_def)
  from without_Some [OF u] obtain us where us: "as_array (or_empty (db_get db ?uk)) = Some us"
    "ys = filter (\<lambda>e. \<not> strict_eq (field e ''Id'') (field r ''Id'')) us" by blast
  from without_Some [OF g] obtain gs where gs: "as_array (or_empty (db_get db ''instances'')) = Some gs"
    "zs = filter (\<lambda>e. \<not> strict_eq (field e ''Id'') (field r ''Id'')) gs" by blast
  show ?thesis
    using us gs by (auto simp add: db' db1_def db_set_def)
qed

text \<open>
  \<open>updateInstanceInDatabase\<close>, when it does not throw: in each list, either no entry has
  the old id as its \<open>ContainerId\<close> and the list is not written, or the first such entry is
  overwritten with the updated record.
\<close>

lemma edit_lists:
  assumes "updateInstanceInDatabase now db ident instance newImage newMemory newCpu newContainerId = Some db'"
    and "key = to_str (field instance ''User'') @ ''_instances'' \<or> key = ''instances''"
  shows "\<exists>insts. as_array (or_empty (db_get db key)) = Some insts
           \<and> ((\<forall>e \<in> set insts. \<not> strict_eq (field e ''ContainerId'') (JStr ident)) \<and> db' key = db key
              \<or> (\<exists>i < length insts. strict_eq (field (insts ! i) ''ContainerId'') (JStr ident)
                    \<and> (\<forall>j < i. \<not> strict_eq (field (insts ! j) ''ContainerId'') (JStr ident))
                    \<and> db' key = Some (JArr (insts[i := spread (insts ! i)
                          (updated_record now instance newImage newMemory newCpu newContainerId)]))))"
proof -
  let ?uk = "to_str (field instance ''User'') @ ''_instances''"
  let ?r = "updated_record now instance newImage newMemory newCpu newContainerId"
  obtain uops where u: "merge_into_list ?uk ident ?r (db_get db ?uk) = Some uops"
    using assms(1) by (auto simp add: updateInstanceInDatabase_def Let_def split: option.splits)
  obtain gops where g: "merge_into_list ''instances'' ident ?r (db_get db ''instances'') = Some gops"
    using assms(1) u by (auto simp add: updateInstanceInDatabase_def Let_def split: option.splits)
  have db': "db' = batch_write db ([BSet (to_str newContainerId @ ''_instance'') ?r,
                   BDel (ident @ ''_instance'')] @ uops @ gops)"
    using assms(1) u g by (simp add: updateInstanceInDatabase_def Let_def)
  from merge_into_list_cases [OF u] obtain us where us: "as_array (or_empty (db_get db ?uk)) = Some us"
    "(\<forall>e \<in> set us. \<not> strict_eq (field e ''ContainerId'') (JStr ident)) \<and> uops = []
      \<or> (\<exists>i < length us. strict_eq (field (us ! i) ''ContainerId'') (JStr ident)
            \<and> (\<forall>j < i. \<not> strict_eq (field (us ! j) ''ContainerId'') (JStr ident))
            \<and> uops = [BSet ?uk (JArr (us[i := spread (us ! i) ?r]))])"
    by blast
  from merge_into_list_cases [OF g] obtain gs where gs: "as_array (or_empty (db_get db ''instances'')) = Some gs"
    "(\<forall>e \<in> set gs. \<not> strict_eq (field e ''ContainerId'') (JStr ident)) \<and> gops = []
      \<or> (\<exists>i < length gs. strict_eq (field (gs ! i) ''ContainerId'') (JStr ident)
            \<and> (\<forall>j < i. \<not> strict_eq (field (gs ! j) ''ContainerId'') (JStr ident))
            \<and> gops = [BSet ''instances'' (JArr (gs[i := spread (gs ! i) ?r]))])"
    by blast
  from assms(2) show ?thesis
  proof
    assume k: "key = ?uk"
    from us(2) gs(2) show ?thesis
      unfolding k db' using us(1)
      by (auto simp add: batch_write_def db_set_def db_delete_def)
  next
    assume k: "key = ''instances''"
    from us(2) gs(2) show ?thesis
      unfolding k db' using gs(1)
      by (auto simp add: batch_write_def db_set_def db_delete_def)
  qed
qed

section \<open>The example edit\<close>

lemma ex_edit_passes: "edit_rejects ex_admin ''srv1'' JUndef (Some 2048) None = None"
  by (simp add: edit_rejects_def isAdmin_def ex_admin_def num_or_def MAX_MEMORY_def)

lemma ex_request: "prepareEditRequestData ex_instance JUndef (Some 2048) None = ex_edit_request"
  by (simp add: prepareEditRequestData_def ex_instance_def ex_node_def node_url_def
      NODE_API_TIMEOUT_def ex_edit_request_def)

lemma ex_request_suspended: "prepareEditRequestData ex_suspended JUndef (Some 2048) None = ex_edit_request"
  by (simp add: prepareEditRequestData_def ex_suspended_def with_field_def ex_instance_def
      ex_node_def node_url_def NODE_API_TIMEOUT_def ex_edit_request_def)

lemma ex_valid_node: "\<not> invalid_node ex_instance" "\<not> invalid_node ex_suspended"
  by (simp_all add: invalid_node_def ex_suspended_def with_field_def ex_instance_def ex_node_def)

lemma ex_call: "edit_call ex_daemon rq = (Inr (200, JObj [(''newContainerId'', JStr ''c1'')]), [rq])"
  by (simp add: edit_call_def ex_daemon_def axios_def)

lemma ex_update_unlisted:
  assumes "field inst ''User'' = JStr ''u2''"
    and "merge_into_list ''u2_instances'' ''srv1''
           (updated_record (ex_clock 0) inst JUndef (Some 2048) None (JStr ''c1''))
           (db_get db ''u2_instances'') = Some []"
    and "merge_into_list ''instances'' ''srv1''
           (updated_record (ex_clock 0) inst JUndef (Some 2048) None (JStr ''c1''))
           (db_get db ''instances'') = Some []"
  shows "updateInstanceInDatabase (ex_clock 0) db ''srv1'' inst JUndef (Some 2048) None (JStr ''c1'')
     = Some (db(''c1_instance'' \<mapsto> updated_record (ex_clock 0) inst JUndef (Some 2048) None (JStr ''c1''),
                ''srv1_instance'' := None))"
  using assms
  by (simp add: updateInstanceInDatabase_def Let_def batch_write_def db_set_def db_delete_def)

lemma ex_no_match:
  "merge_into_list key ''srv1'' r (JArr [ex_instance]) = Some []"
  "merge_into_list key ''srv1'' r (JArr [ex_suspended]) = Some []"
  "merge_into_list key ''srv1'' r (JArr []) = Some []"
  by (simp_all add: merge_into_list_def or_empty_def ex_suspended_def with_field_def
      ex_instance_def get_prop_def)

text \<open>
  An admin sets the memory of \<open>srv1\<close> to 2048, addressing the instance by the key it is
  stored under; the daemon answers with the container \<open>c1\<close>. No entry of either list has
  \<open>srv1\<close> as its \<open>ContainerId\<close>, so the record moves to \<open>c1_instance\<close> and the lists stay.
\<close>

lemma ex_edit_result:
  assumes "db_get db ''srv1_instance'' = inst" and "inst = ex_instance \<or> inst = ex_suspended"
    and "db_get db ''u2_instances'' = JArr [ex_instance] \<or> db_get db ''u2_instances'' = JArr []"
    and "db_get db ''instances'' = JArr [ex_instance] \<or> db_get db ''instances'' = JArr [ex_suspended]
         \<or> db_get db ''instances'' = JArr []"
  shows "edit_instance ex_daemon (ex_clock 0) db ex_admin ''srv1'' JUndef (Some 2048) None
     = (ex_edit_ok,
        db(''c1_instance'' \<mapsto> updated_record (ex_clock 0) inst JUndef (Some 2048) None (JStr ''c1''),
           ''srv1_instance'' := None),
        [ex_edit_request])"
proof -
  have u: "field inst ''User'' = JStr ''u2''" and t: "truthy inst" and n: "\<not> invalid_node inst"
    and rq: "prepareEditRequestData inst JUndef (Some 2048) None = ex_edit_request"
    using assms(2) ex_valid_node ex_request ex_request_suspended
    by (auto simp add: ex_suspended_def with_field_def ex_instance_def)
  have "updateInstanceInDatabase (ex_clock 0) db ''srv1'' inst JUndef (Some 2048) None (JStr ''c1'')
     = Some (db(''c1_instance'' \<mapsto> updated_record (ex_clock 0) inst JUndef (Some 2048) None (JStr ''c1''),
                ''srv1_instance'' := None))"
    using assms(3,4) by (intro ex_update_unlisted [OF u]) (auto simp add: ex_no_match)
  then have "edit_found ex_daemon (ex_clock 0) db ''srv1'' inst JUndef (Some 2048) None
     = (ex_edit_ok,
        db(''c1_instance'' \<mapsto> updated_record (ex_clock 0) inst JUndef (Some 2048) None (JStr ''c1''),
           ''srv1_instance'' := None),
        [ex_edit_request])"
    by (simp add: edit_found_def rq ex_call ex_edit_ok_def changes_def num_or_def)
  then show ?thesis
    using t n assms(1) by (simp add: edit_instance_def ex_edit_passes)
qed

lemma ex_updated_fields:
  "field (updated_record now ex_instance JUndef (Some 2048) None (JStr ''c1'')) ''Id'' = JStr ''srv1''"
  "field (updated_record now ex_instance JUndef (Some 2048) None (JStr ''c1'')) ''Memory'' = JNum 2048"
  "field (updated_record now ex_suspended JUndef (Some 2048) None (JStr ''c1'')) ''Memory'' = JNum 2048"
  "field (updated_record now ex_suspended JUndef (Some 2048) None (JStr ''c1'')) ''suspended'' = JBool True"
  by (simp_all add: updated_record_def with_field_def ex_suspended_def ex_instance_def
      num_or_def val_or_def)

section \<open>How the entry to replace is located\<close>

text \<open>
  C3, as the code has it. \<open>updateInstanceInUserAndGlobalArrays\<close> (environment variables,
  image change) locates by \<open>Id\<close>: from both lists it removes every entry whose \<open>Id\<close> is the
  record's and pushes the record. \<open>updateInstanceInDatabase\<close> (edit) locates by
  \<open>ContainerId\<close>: in each list it overwrites the first entry whose \<open>ContainerId\<close> is the old
  id of the request, whatever the \<open>Id\<close> of that entry, and writes nothing when there is
  none.
\<close>

theorem entries_located_by_Id_or_by_ContainerId:
  "(updateInstanceInUserAndGlobalArrays db r = (None, db') \<longrightarrow>
      (\<exists>us gs. as_array (or_empty (db_get db (to_str (field r ''User'') @ ''_instances''))) = Some us
          \<and> as_array (or_empty (db_get db ''instances'')) = Some gs
          \<and> db' (to_str (field r ''User'') @ ''_instances'') =
               Some (JArr (filter (\<lambda>e. \<not> strict_eq (field e ''Id'') (field r ''Id'')) us @ [r]))
          \<and> db' ''instances'' =
               Some (JArr (filter (\<lambda>e. \<not> strict_eq (field e ''Id'') (field r ''Id'')) gs @ [r]))))
   \<and> (updateInstanceInDatabase now db ident instance newImage newMemory newCpu newContainerId = Some db2 \<longrightarrow>
      (\<forall>key \<in> {to_str (field instance ''User'') @ ''_instances'', ''instances''}.
         \<exists>insts. as_array (or_empty (db_get db key)) = Some insts
           \<and> ((\<forall>e \<in> set insts. \<not> strict_eq (field e ''ContainerId'') (JStr ident)) \<and> db2 key = db key
              \<or> (\<exists>i < length insts. strict_eq (field (insts ! i) ''ContainerId'') (JStr ident)
                    \<and> (\<forall>j < i. \<not> strict_eq (field (insts ! j) ''ContainerId'') (JStr ident))
                    \<and> db2 key = Some (JArr (insts[i := spread (insts ! i)
                          (updated_record now instance newImage newMemory newCpu newContainerId)]))))))"
proof (intro conjI impI ballI)
  assume "updateInstanceInUserAndGlobalArrays db r = (None, db')"
  from sync_by_Id [OF this] show "\<exists>us gs. as_array (or_empty (db_get db (to_str (field r ''User'') @ ''_instances''))) = Some us
          \<and> as_array (or_empty (db_get db ''instances'')) = Some gs
          \<and> db' (to_str (field r ''User'') @ ''_instances'') =
               Some (JArr (filter (\<lambda>e. \<not> strict_eq (field e ''Id'') (field r ''Id'')) us @ [r]))
          \<and> db' ''instances'' =
               Some (JArr (filter (\<lambda>e. \<not> strict_eq (field e ''Id'') (field r ''Id'')) gs @ [r]))"
    by blast
next
  fix key
  assume a: "updateInstanceInDatabase now db ident instance newImage newMemory newCpu newContainerId = Some db2"
    and "key \<in> {to_str (field instance ''User'') @ ''_instances'', ''instances''}"
  then have k: "key = to_str (field instance ''User'') @ ''_instances'' \<or> key = ''instances''"
    by simp
  show "\<exists>insts. as_array (or_empty (db_get db key)) = Some insts
           \<and> ((\<forall>e \<in> set insts. \<not> strict_eq (field e ''ContainerId'') (JStr ident)) \<and> db2 key = db key
              \<or> (\<exists>i < length insts. strict_eq (field (insts ! i) ''ContainerId'') (JStr ident)
                    \<and> (\<forall>j < i. \<not> strict_eq (field (insts ! j) ''ContainerId'') (JStr ident))
                    \<and> db2 key = Some (JArr (insts[i := spread (insts ! i)
                          (updated_record now instance newImage newMemory newCpu newContainerId)]))))"
    by (rule edit_lists [OF a k])
qed

lemma ex_sync:
  "updateInstanceInUserAndGlobalArrays ex_db ex_suspended =
     (None, ex_db(''u2_instances'' \<mapsto> JArr [ex_suspended], ''instances'' \<mapsto> JArr [ex_suspended]))"
  by (simp add: updateInstanceInUserAndGlobalArrays_def Let_def)
     (simp add: ex_suspended_def with_field_def ex_instance_def without_def db_get_def ex_db_def
        or_empty_def get_prop_def db_set_def)

lemma ex_lists: "db_get ex_db ''u2_instances'' = JArr [ex_instance]" "db_get ex_db ''instances'' = JArr [ex_instance]"
  by (simp_all add: db_get_def ex_db_def)

lemma ex_match:
  "merge_into_list key ''c0ffee'' r (JArr [ex_instance]) = Some [BSet key (JArr [spread ex_instance r])]"
  by (simp add: merge_into_list_def or_empty_def ex_instance_def get_prop_def)

lemma ex_user: "to_str (field ex_instance ''User'') @ ''_instances'' = ''u2_instances''"
  by (simp add: ex_instance_def)

lemma ex_update_listed:
  "\<exists>db2. updateInstanceInDatabase (ex_clock 0) ex_db ''c0ffee'' ex_instance JUndef (Some 2048) None (JStr ''c1'') = Some db2"
  by (simp add: updateInstanceInDatabase_def Let_def ex_user ex_lists ex_match)

theorem entries_located_witness:
  "updateInstanceInUserAndGlobalArrays ex_db ex_suspended =
     (None, ex_db(''u2_instances'' \<mapsto> JArr [ex_suspended], ''instances'' \<mapsto> JArr [ex_suspended]))
   \<and> filter (\<lambda>e. \<not> strict_eq (field e ''Id'') (field ex_suspended ''Id'')) [ex_instance] @ [ex_suspended]
       = [ex_suspended]
   \<and> (\<exists>db2. updateInstanceInDatabase (ex_clock 0) ex_db ''c0ffee'' ex_instance JUndef (Some 2048) None
               (JStr ''c1'') = Some db2
          \<and> db2 ''instances'' = Some (JArr [spread ex_instance
               (updated_record (ex_clock 0) ex_instance JUndef (Some 2048) None (JStr ''c1''))]))"
proof -
  obtain db2 where d2: "updateInstanceInDatabase (ex_clock 0) ex_db ''c0ffee'' ex_instance JUndef
      (Some 2048) None (JStr ''c1'') = Some db2"
    using ex_update_listed by blast
  have cid: "strict_eq (field ex_instance ''ContainerId'') (JStr ''c0ffee'')"
    by (simp add: ex_instance_def)
  have arr: "as_array (or_empty (db_get ex_db ''instances'')) = Some [ex_instance]"
    by (simp add: ex_lists or_empty_def)
  from entries_located_by_Id_or_by_ContainerId
         [of ex_db ex_suspended "ex_db(''u2_instances'' \<mapsto> JArr [ex_suspended], ''instances'' \<mapsto> JArr [ex_suspended])"
             "ex_clock 0" "''c0ffee''" ex_instance JUndef "Some 2048" None "JStr ''c1''" db2]
       ex_sync d2
  have byId: "\<exists>us gs. as_array (or_empty (db_get ex_db (to_str (field ex_suspended ''User'') @ ''_instances''))) = Some us
          \<and> as_array (or_empty (db_get ex_db ''instances'')) = Some gs
          \<and> (ex_db(''u2_instances'' \<mapsto> JArr [ex_suspended], ''instances'' \<mapsto> JArr [ex_suspended])) ''instances'' =
               Some (JArr (filter (\<lambda>e. \<not> strict_eq (field e ''Id'') (field ex_suspended ''Id'')) gs @ [ex_suspended]))"
    and byCid: "\<exists>insts. as_array (or_empty (db_get ex_db ''instances'')) = Some insts
           \<and> ((\<forall>e \<in> set insts. \<not> strict_eq (field e ''ContainerId'') (JStr ''c0ffee'')) \<and> db2 ''instances'' = ex_db ''instances''
              \<or> (\<exists>i < length insts. strict_eq (field (insts ! i) ''ContainerId'') (JStr ''c0ffee'')
                    \<and> db2 ''instances'' = Some (JArr (insts[i := spread (insts ! i)
                          (updated_record (ex_clock 0) ex_instance JUndef (Some 2048) None (JStr ''c1''))]))))"
    by blast+
  from byId arr have f: "filter (\<lambda>e. \<not> strict_eq (field e ''Id'') (field ex_suspended ''Id'')) [ex_instance] @ [ex_suspended]
       = [ex_suspended]"
    by auto
  from byCid arr cid have "db2 ''instances'' = Some (JArr [spread ex_instance
               (updated_record (ex_clock 0) ex_instance JUndef (Some 2048) None (JStr ''c1''))])"
    by auto
  with d2 f ex_sync show ?thesis by blast
qed


text \<open>
  The claim as stated fails on the edit. After the example edit the record of \<open>srv1\<close>
  has moved to \<open>c1_instance\<close> with 2048 of memory, and the entries with the same \<open>Id\<close> in
  the owner's list and in the global list are the old ones: they were looked for by
  \<open>ContainerId\<close>, which is \<open>c0ffee\<close> and not the id of the request.
\<close>

theorem edit_misses_entry_with_same_Id:
  "fst (edit_instance ex_daemon (ex_clock 0) ex_db ex_admin ''srv1'' JUndef (Some 2048) None) = ex_edit_ok
   \<and> field (db_get (fst (snd (edit_instance ex_daemon (ex_clock 0) ex_db ex_admin ''srv1'' JUndef (Some 2048) None)))
        ''c1_instance'') ''Id'' = JStr ''srv1''
   \<and> field (db_get (fst (snd (edit_instance ex_daemon (ex_clock 0) ex_db ex_admin ''srv1'' JUndef (Some 2048) None)))
        ''c1_instance'') ''Memory'' = JNum 2048
   \<and> db_get (fst (snd (edit_instance ex_daemon (ex_clock 0) ex_db ex_admin ''srv1'' JUndef (Some 2048) None)))
        ''u2_instances'' = JArr [ex_instance]
   \<and> db_get (fst (snd (edit_instance ex_daemon (ex_clock 0) ex_db ex_admin ''srv1'' JUndef (Some 2048) None)))
        ''instances'' = JArr [ex_instance]
   \<and> field ex_instance ''Id'' = JStr ''srv1'' \<and> field ex_instance ''Memory'' = JNum 1024
   \<and> field ex_instance ''ContainerId'' = JStr ''c0ffee''"
proof -
  have "edit_instance ex_daemon (ex_clock 0) ex_db ex_admin ''srv1'' JUndef (Some 2048) None
     = (ex_edit_ok,
        ex_db(''c1_instance'' \<mapsto> updated_record (ex_clock 0) ex_instance JUndef (Some 2048) None (JStr ''c1''),
           ''srv1_instance'' := None),
        [ex_edit_request])"
    by (rule ex_edit_result) (simp_all add: db_get_def ex_db_def)
  then show ?thesis
    by (simp add: db_get_def ex_updated_fields) (simp add: ex_db_def ex_instance_def)
qed

section \<open>Appending when no entry is found\<close>

text \<open>
  C5, as the code has it. \<open>updateInstanceInUserAndGlobalArrays\<close> always pushes the
  record, so after it the record is the last entry of the owner's list and of the global
  list; when no entry had the record's \<open>Id\<close> the lists are the old ones with the record
  appended. \<open>updateInstanceInDatabase\<close> (edit) does not append: a list in which no entry
  has the old id as its \<open>ContainerId\<close> is left as it was.
\<close>

lemma filter_none: "\<forall>e \<in> set xs. \<not> P e \<Longrightarrow> filter (\<lambda>e. \<not> P e) xs = xs"
  by (induction xs) auto

theorem sync_appends_edit_skips:
  "(updateInstanceInUserAndGlobalArrays db r = (None, db') \<longrightarrow>
      (\<exists>us gs. db' (to_str (field r ''User'') @ ''_instances'') = Some (JArr (us @ [r]))
          \<and> db' ''instances'' = Some (JArr (gs @ [r]))
          \<and> (\<forall>old. as_array (or_empty (db_get db (to_str (field r ''User'') @ ''_instances''))) = Some old
                \<and> (\<forall>e \<in> set old. \<not> strict_eq (field e ''Id'') (field r ''Id'')) \<longrightarrow> us = old)
          \<and> (\<forall>old. as_array (or_empty (db_get db ''instances'')) = Some old
                \<and> (\<forall>e \<in> set old. \<not> strict_eq (field e ''Id'') (field r ''Id'')) \<longrightarrow> gs = old)))
   \<and> (updateInstanceInDatabase now db ident instance newImage newMemory newCpu newContainerId = Some db2 \<longrightarrow>
      (\<forall>key \<in> {to_str (field instance ''User'') @ ''_instances'', ''instances''}.
         \<forall>insts. as_array (or_empty (db_get db key)) = Some insts
           \<and> (\<forall>e \<in> set insts. \<not> strict_eq (field e ''ContainerId'') (JStr ident))
           \<longrightarrow> db2 key = db key))"
proof (intro conjI impI ballI allI)
  assume "updateInstanceInUserAndGlobalArrays db r = (None, db')"
  from sync_by_Id [OF this] obtain us gs where
    us: "as_array (or_empty (db_get db (to_str (field r ''User'') @ ''_instances''))) = Some us"
    and gs: "as_array (or_empty (db_get db ''instances'')) = Some gs"
    and du: "db' (to_str (field r ''User'') @ ''_instances'') =
               Some (JArr (filter (\<lambda>e. \<not> strict_eq (field e ''Id'') (field r ''Id'')) us @ [r]))"
    and dg: "db' ''instances'' =
               Some (JArr (filter (\<lambda>e. \<not> strict_eq (field e ''Id'') (field r ''Id'')) gs @ [r]))"
    by blast
  show "\<exists>us gs. db' (to_str (field r ''User'') @ ''_instances'') = Some (JArr (us @ [r]))
          \<and> db' ''instances'' = Some (JArr (gs @ [r]))
          \<and> (\<forall>old. as_array (or_empty (db_get db (to_str (field r ''User'') @ ''_instances''))) = Some old
                \<and> (\<forall>e \<in> set old. \<not> strict_eq (field e ''Id'') (field r ''Id'')) \<longrightarrow> us = old)
          \<and> (\<forall>old. as_array (or_empty (db_get db ''instances'')) = Some old
                \<and> (\<forall>e \<in> set old. \<not> strict_eq (field e ''Id'') (field r ''Id'')) \<longrightarrow> gs = old)"
    using us gs du dg
    by (intro exI [of _ "filter (\<lambda>e. \<not> strict_eq (field e ''Id'') (field r ''Id'')) us"]
              exI [of _ "filter (\<lambda>e. \<not> strict_eq (field e ''Id'') (field r ''Id'')) gs"])
       (auto simp add: filter_none)
next
  fix key insts
  assume a: "updateInstanceInDatabase now db ident instance newImage newMemory newCpu newContainerId = Some db2"
    and "key \<in> {to_str (field instance ''User'') @ ''_instances'', ''instances''}"
    and n: "as_array (or_empty (db_get db key)) = Some insts
           \<and> (\<forall>e \<in> set insts. \<not> strict_eq (field e ''ContainerId'') (JStr ident))"
  then have k: "key = to_str (field instance ''User'') @ ''_instances'' \<or> key = ''instances''"
    by simp
  from edit_lists [OF a k] n show "db2 key = db key"
    by auto
qed

lemma ex_pruned_lists:
  "db_get ex_db_pruned ''u2_instances'' = JArr []" "db_get ex_db_pruned ''instances'' = JArr []"
  "db_get ex_db_pruned ''srv1_instance'' = ex_instance"
  by (simp_all add: db_get_def ex_db_pruned_def ex_db_def)

lemma ex_sync_pruned:
  "updateInstanceInUserAndGlobalArrays ex_db_pruned ex_instance =
     (None, ex_db_pruned(''u2_instances'' \<mapsto> JArr [ex_instance], ''instances'' \<mapsto> JArr [ex_instance]))"
  by (simp add: updateInstanceInUserAndGlobalArrays_def Let_def ex_user)
     (simp add: without_def db_get_def ex_db_pruned_def or_empty_def db_set_def)

theorem sync_appends_edit_skips_witness:
  "updateInstanceInUserAndGlobalArrays ex_db_pruned ex_instance =
     (None, ex_db_pruned(''u2_instances'' \<mapsto> JArr [ex_instance], ''instances'' \<mapsto> JArr [ex_instance]))
   \<and> as_array (or_empty (db_get ex_db_pruned ''instances'')) = Some []
   \<and> (\<exists>db2. updateInstanceInDatabase (ex_clock 0) ex_db_pruned ''srv1'' ex_instance JUndef (Some 2048) None
               (JStr ''c1'') = Some db2
          \<and> db2 ''instances'' = Some (JArr []) \<and> db2 ''u2_instances'' = Some (JArr []))"
proof -
  let ?r = "updated_record (ex_clock 0) ex_instance JUndef (Some 2048) None (JStr ''c1'')"
  have u: "field ex_instance ''User'' = JStr ''u2''"
    by (simp add: ex_instance_def)
  obtain db2 where d2: "updateInstanceInDatabase (ex_clock 0) ex_db_pruned ''srv1'' ex_instance JUndef
      (Some 2048) None (JStr ''c1'') = Some db2"
    using ex_update_unlisted [OF u, of ex_db_pruned] by (simp add: ex_pruned_lists ex_no_match)
  have arr: "as_array (or_empty (db_get ex_db_pruned ''instances'')) = Some []"
    "as_array (or_empty (db_get ex_db_pruned ''u2_instances'')) = Some []"
    by (simp_all add: ex_pruned_lists or_empty_def)
  have old: "ex_db_pruned ''instances'' = Some (JArr [])" "ex_db_pruned ''u2_instances'' = Some (JArr [])"
    by (simp_all add: ex_db_pruned_def)
  have "\<forall>key \<in> {to_str (field ex_instance ''User'') @ ''_instances'', ''instances''}.
         \<forall>insts. as_array (or_empty (db_get ex_db_pruned key)) = Some insts
           \<and> (\<forall>e \<in> set insts. \<not> strict_eq (field e ''ContainerId'') (JStr ''srv1''))
           \<longrightarrow> db2 key = ex_db_pruned key"
    using sync_appends_edit_skips [THEN conjunct2, rule_format, OF d2] by blast
  then have "db2 ''instances'' = Some (JArr []) \<and> db2 ''u2_instances'' = Some (JArr [])"
    using arr old by (simp add: ex_user)
  with d2 ex_sync_pruned arr show ?thesis by blast
qed

text \<open>
  The claim as stated fails on the edit: with both lists empty the example edit
  succeeds, the record is stored under \<open>c1_instance\<close>, and both lists are still empty.
\<close>

theorem edit_does_not_append:
  "fst (edit_instance ex_daemon (ex_clock 0) ex_db_pruned ex_admin ''srv1'' JUndef (Some 2048) None) = ex_edit_ok
   \<and> db_get (fst (snd (edit_instance ex_daemon (ex_clock 0) ex_db_pruned ex_admin ''srv1'' JUndef (Some 2048) None)))
        ''c1_instance'' = updated_record (ex_clock 0) ex_instance JUndef (Some 2048) None (JStr ''c1'')
   \<and> field (updated_record (ex_clock 0) ex_instance JUndef (Some 2048) None (JStr ''c1'')) ''Id'' = JStr ''srv1''
   \<and> db_get (fst (snd (edit_instance ex_daemon (ex_clock 0) ex_db_pruned ex_admin ''srv1'' JUndef (Some 2048) None)))
        ''u2_instances'' = JArr []
   \<and> db_get (fst (snd (edit_instance ex_daemon (ex_clock 0) ex_db_pruned ex_admin ''srv1'' JUndef (Some 2048) None)))
        ''instances'' = JArr []"
proof -
  have "edit_instance ex_daemon (ex_clock 0) ex_db_pruned ex_admin ''srv1'' JUndef (Some 2048) None
     = (ex_edit_ok,
        ex_db_pruned(''c1_instance'' \<mapsto> updated_record (ex_clock 0) ex_instance JUndef (Some 2048) None (JStr ''c1''),
           ''srv1_instance'' := None),
        [ex_edit_request])"
    by (rule ex_edit_result) (simp_all add: ex_pruned_lists)
  then show ?thesis
    using ex_pruned_lists by (simp add: db_get_def ex_updated_fields)
qed

section \<open>Editing a suspended instance\<close>







section \<open>Retrying a call to the daemon\<close>

text \<open>What the call with its retry sends and returns, and how the handlers go on from
  their calls.\<close>

lemma edit_call_requests:
  "snd (edit_call daemon rq) =
     (if (\<exists>status body. daemon 0 = Responded status body \<and> status \<ge> 500)
         \<or> (\<exists>message. daemon 0 = NoResponse ''ECONNABORTED'' message)
      then [rq, rq] else [rq])"
  by (cases "daemon 0") (auto simp add: edit_call_def axios_def)


lemma edit_call_sends: "snd (edit_call daemon rq) \<noteq> []"
  by (simp add: edit_call_requests)














section \<open>The three copies after each mutation\<close>

subsection \<open>Environment variables, image change and reinstall\<close>



lemma redirect_distinct [simp]:
  "Redirect (''../../instances?err=REINSTALL_FAILED&message='' @ m) \<noteq> Redirect (''../../instance/'' @ ident)"
  by simp







subsection \<open>Suspending and unsuspending\<close>









subsection \<open>Editing\<close>









subsection \<open>All of them\<close>


subsection \<open>The mutations on the example panel\<close>













end
